theory Spec2Isabelle
  imports Main
begin

section \<open>Python values and exceptions\<close>

text \<open>
  A decoded JSON document, as \<^verbatim>\<open>response.json()\<close> returns it and as the \<^verbatim>\<open>data\<close>
  column stores it (\<^verbatim>\<open>json.dumps\<close> followed by the database's JSON input is the
  identity on these documents). Numbers are restricted to integers; an object is the
  Python dict, an association list whose first binding of a key is the dict's entry.
\<close>

datatype json =
    JNull
  | JBool bool
  | JNum int
  | JStr string
  | JArr "json list"
  | JObj "(string \<times> json) list"

datatype exc =
    RequestException
  | HTTPError
  | JSONDecodeError
  | TypeError
  | KeyError
  | DatabaseError
  | PlainException

text \<open>A raised exception: its class and the text \<^verbatim>\<open>str(e)\<close> gives.\<close>

datatype error = Raised exc string

fun exc_str :: "error \<Rightarrow> string" where
  "exc_str (Raised c m) = m"

definition quoted :: "string \<Rightarrow> string" where
  "quoted s = CHR 0x27 # s @ [CHR 0x27]"

text \<open>
  \<^verbatim>\<open>len(launches)\<close> and \<^verbatim>\<open>for launch in launches\<close>: a list gives its elements, a dict
  its keys, a string its characters; \<^verbatim>\<open>None\<close>, a bool and a number have no length.
\<close>

fun py_items :: "json \<Rightarrow> error + json list" where
  "py_items (JArr xs) = Inr xs"
| "py_items (JObj kvs) = Inr (map (\<lambda>kv. JStr (fst kv)) kvs)"
| "py_items (JStr s) = Inr (map (\<lambda>c. JStr [c]) s)"
| "py_items JNull = Inl (Raised TypeError (''object of type '' @ quoted ''NoneType'' @ '' has no len()''))"
| "py_items (JBool b) = Inl (Raised TypeError (''object of type '' @ quoted ''bool'' @ '' has no len()''))"
| "py_items (JNum n) = Inl (Raised TypeError (''object of type '' @ quoted ''int'' @ '' has no len()''))"

text \<open>\<^verbatim>\<open>launch['id']\<close>: only a dict can be subscripted by a string.\<close>

fun subscript_id :: "json \<Rightarrow> error + json" where
  "subscript_id (JObj kvs) =
     (case map_of kvs ''id'' of
        None \<Rightarrow> Inl (Raised KeyError (quoted ''id''))
      | Some v \<Rightarrow> Inr v)"
| "subscript_id (JArr xs) = Inl (Raised TypeError ''list indices must be integers or slices, not str'')"
| "subscript_id (JStr s) = Inl (Raised TypeError ''string indices must be integers'')"
| "subscript_id JNull = Inl (Raised TypeError (quoted ''NoneType'' @ '' object is not subscriptable''))"
| "subscript_id (JBool b) = Inl (Raised TypeError (quoted ''bool'' @ '' object is not subscriptable''))"
| "subscript_id (JNum n) = Inl (Raised TypeError (quoted ''int'' @ '' object is not subscriptable''))"

section \<open>The database, the API and the world\<close>

record row =
  row_id :: string
  data :: json
  extracted_at :: int
  source_system :: string

record run_log_entry =
  pipeline_name :: string
  status :: string
  records_processed :: nat
  error_message :: "string option"
  run_date :: int

record db =
  launches :: "row list"
  starlink :: "row list"
  rockets :: "row list"
  pipeline_metadata :: "run_log_entry list"

datatype collection = Launches | Starlink | Rockets

fun table_of :: "collection \<Rightarrow> db \<Rightarrow> row list" where
  "table_of Launches d = launches d"
| "table_of Starlink d = starlink d"
| "table_of Rockets d = rockets d"

fun set_table :: "collection \<Rightarrow> row list \<Rightarrow> db \<Rightarrow> db" where
  "set_table Launches t d = d\<lparr>launches := t\<rparr>"
| "set_table Starlink t d = d\<lparr>starlink := t\<rparr>"
| "set_table Rockets t d = d\<lparr>rockets := t\<rparr>"

text \<open>
  What the three calls \<^verbatim>\<open>requests.get\<close>, \<^verbatim>\<open>raise_for_status\<close> and
  \<^verbatim>\<open>response.json\<close> do for one collection: the first of them that raises, or the
  decoded body.
\<close>

datatype http_reply =
    Get_raises error
  | Status_raises error
  | Json_raises error
  | Body json

text \<open>The lines the module's logger receives, with the values they are formatted from.\<close>

datatype log_line =
    Connection_failed error
  | Failed_to_log error
  | Extracting collection
  | Retrieved collection nat
  | Loaded_new_updated collection nat nat
  | Loaded_records collection nat
  | Error_extracting collection error
  | Quality_running
  | Quality_completed "(string \<times> int) list"
  | Quality_failed error
  | Summary_failed error

datatype summary_value = Count nat | Last_update "int option"

text \<open>
  The world a call runs in.
  \<^item> \<open>store\<close>: the committed contents of the database.
  \<^item> \<open>open_conns\<close>: connections obtained from \<^verbatim>\<open>psycopg2.connect\<close> and not yet closed.
  \<^item> \<open>faults\<close>: the outcome of the coming round trips to the database server
    (connect, execute, commit), in order: \<open>None\<close> succeeds, \<open>Some m\<close> raises a
    database error with text \<open>m\<close>; once the list is used up every round trip succeeds.
  \<^item> \<open>clock\<close>: what \<^verbatim>\<open>datetime.now()\<close> and the database's \<^verbatim>\<open>NOW()\<close> read, in seconds.
  \<^item> \<open>logged\<close>: the logger's output.
  \<^item> \<open>api\<close>: what the upstream API answers for each collection.
  \<^item> \<open>id_column\<close>: the table declaration is not part of the sources, so the way the
    \<^verbatim>\<open>id\<close> column takes a parameter value is a parameter: \<open>Inr k\<close> is the stored key,
    \<open>Inl m\<close> the statement's failure (a null key, a value of the wrong type).
  \<^item> \<open>xcom\<close>: the values pushed to the orchestrator.
\<close>

record world =
  store :: db
  open_conns :: nat
  faults :: "string option list"
  clock :: int
  logged :: "log_line list"
  api :: "collection \<Rightarrow> http_reply"
  id_column :: "json \<Rightarrow> string + string"
  xcom :: "(string \<times> (string \<times> int) list) list"

section \<open>Exceptions and state\<close>

type_synonym 'a io = "world \<Rightarrow> (error + 'a) \<times> world"

definition return_io :: "'a \<Rightarrow> 'a io" where
  "return_io x w = (Inr x, w)"

definition raise_io :: "error \<Rightarrow> 'a io" where
  "raise_io e w = (Inl e, w)"

definition bind_io :: "'a io \<Rightarrow> ('a \<Rightarrow> 'b io) \<Rightarrow> 'b io" where
  "bind_io m f w = (case m w of (Inl e, w') \<Rightarrow> (Inl e, w') | (Inr x, w') \<Rightarrow> f x w')"

text \<open>\<^verbatim>\<open>try: m  except Exception as e: h e\<close>\<close>

definition try_except :: "'a io \<Rightarrow> (error \<Rightarrow> 'a io) \<Rightarrow> 'a io" where
  "try_except m h w = (case m w of (Inl e, w') \<Rightarrow> h e w' | (Inr x, w') \<Rightarrow> (Inr x, w'))"

definition lift_io :: "error + 'a \<Rightarrow> 'a io" where
  "lift_io r w = (r, w)"

definition logger :: "log_line \<Rightarrow> unit io" where
  "logger l w = (Inr (), w\<lparr>logged := logged w @ [l]\<rparr>)"

definition now :: "int io" where
  "now w = (Inr (clock w), w)"

text \<open>One round trip to the database server: it takes the next outcome of \<open>faults\<close>.\<close>

definition round_trip :: "unit io" where
  "round_trip w =
     (case faults w of
        [] \<Rightarrow> (Inr (), w)
      | None # fs \<Rightarrow> (Inr (), w\<lparr>faults := fs\<rparr>)
      | Some m # fs \<Rightarrow> (Inl (Raised DatabaseError m), w\<lparr>faults := fs\<rparr>))"

text \<open>
  \<^verbatim>\<open>psycopg2.connect\<close>. The connection is in a transaction (autocommit is off): it works
  on its own view of the tables, the committed contents when it was opened, and only
  \<open>commit\<close> makes the view the committed contents.
\<close>

definition connect :: "db io" where
  "connect = bind_io round_trip (\<lambda>_ w. (Inr (store w), w\<lparr>open_conns := Suc (open_conns w)\<rparr>))"

definition commit :: "db \<Rightarrow> unit io" where
  "commit conn = bind_io round_trip (\<lambda>_ w. (Inr (), w\<lparr>store := conn\<rparr>))"

text \<open>\<^verbatim>\<open>cursor.close(); conn.close()\<close>; a view that was not committed is dropped.\<close>

definition close :: "unit io" where
  "close w = (Inr (), w\<lparr>open_conns := open_conns w - 1\<rparr>)"

text \<open>
  The end of a call that holds its connection in a local variable. When the call returns,
  its frame is freed and a connection it opened and did not close is closed with the
  frame. When the call raises, the traceback keeps the frame and the connection stays open.
\<close>

definition frees_frame :: "'a io \<Rightarrow> 'a io" where
  "frees_frame m w =
     (case m w of
        (Inl e, w') \<Rightarrow> (Inl e, w')
      | (Inr x, w') \<Rightarrow> (Inr x, w'\<lparr>open_conns := open_conns w\<rparr>))"

section \<open>The SQL statements\<close>

text \<open>
  \<^verbatim>\<open>INSERT INTO t (id, data, extracted_at, source_system) VALUES (k, d, ts, src)
  ON CONFLICT (id) DO UPDATE SET data = EXCLUDED.data, extracted_at = EXCLUDED.extracted_at\<close>
  on the rows of one table: a row whose id is \<open>k\<close> gets the new data and timestamp and
  keeps its \<open>source_system\<close>; when there is none, the new row is added.
\<close>

definition upsert :: "string \<Rightarrow> json \<Rightarrow> int \<Rightarrow> string \<Rightarrow> row list \<Rightarrow> row list" where
  "upsert k d ts src t =
     (if k \<in> set (map row_id t)
      then map (\<lambda>r. if row_id r = k then r\<lparr>data := d, extracted_at := ts\<rparr> else r) t
      else t @ [\<lparr>row_id = k, data = d, extracted_at = ts, source_system = src\<rparr>])"

text \<open>
  \<^verbatim>\<open>RETURNING (xmax = 0) AS inserted\<close>: the written row has \<open>xmax = 0\<close> when the statement
  inserted it, and the updating transaction's id when the statement took the
  \<^verbatim>\<open>DO UPDATE\<close> branch.
\<close>

definition returning_inserted :: "string \<Rightarrow> row list \<Rightarrow> bool" where
  "returning_inserted k t = (k \<notin> set (map row_id t))"

text \<open>
  \<^verbatim>\<open>cursor.execute\<close> of the upsert with \<^verbatim>\<open>RETURNING\<close>, then \<^verbatim>\<open>cursor.fetchone()[0]\<close>:
  one round trip, which writes in the connection's view and answers the flag.
\<close>

definition execute_upsert_returning ::
  "collection \<Rightarrow> json \<Rightarrow> json \<Rightarrow> int \<Rightarrow> string \<Rightarrow> db \<Rightarrow> (db \<times> bool) io" where
  "execute_upsert_returning c ident d ts src conn =
     bind_io round_trip (\<lambda>_ w.
       case id_column w ident of
         Inl m \<Rightarrow> (Inl (Raised DatabaseError m), w)
       | Inr k \<Rightarrow>
           (Inr (set_table c (upsert k d ts src (table_of c conn)) conn,
                 returning_inserted k (table_of c conn)), w))"

text \<open>The same statement without \<^verbatim>\<open>RETURNING\<close>, as \<^verbatim>\<open>extract_rockets\<close> sends it.\<close>

definition execute_upsert ::
  "collection \<Rightarrow> json \<Rightarrow> json \<Rightarrow> int \<Rightarrow> string \<Rightarrow> db \<Rightarrow> db io" where
  "execute_upsert c ident d ts src conn =
     bind_io round_trip (\<lambda>_ w.
       case id_column w ident of
         Inl m \<Rightarrow> (Inl (Raised DatabaseError m), w)
       | Inr k \<Rightarrow> (Inr (set_table c (upsert k d ts src (table_of c conn)) conn), w))"

text \<open>
  \<^verbatim>\<open>INSERT INTO bronze.pipeline_metadata (pipeline_name, status, records_processed,
  error_message) VALUES (...)\<close>; \<open>run_date\<close> takes its default, the time of the insert.
\<close>

definition execute_insert_metadata ::
  "string \<Rightarrow> string \<Rightarrow> nat \<Rightarrow> string option \<Rightarrow> db \<Rightarrow> db io" where
  "execute_insert_metadata name st records err conn =
     bind_io round_trip (\<lambda>_ w.
       (Inr (conn\<lparr>pipeline_metadata := pipeline_metadata conn @
               [\<lparr>pipeline_name = name, status = st, records_processed = records,
                 error_message = err, run_date = clock w\<rparr>]\<rparr>), w))"

text \<open>A \<^verbatim>\<open>SELECT\<close> and its \<^verbatim>\<open>fetchone\<close>: one round trip, the view is only read.\<close>

definition execute_query :: "(int \<Rightarrow> db \<Rightarrow> 'a) \<Rightarrow> db \<Rightarrow> 'a io" where
  "execute_query q conn = bind_io round_trip (\<lambda>_ w. (Inr (q (clock w) conn), w))"

subsection \<open>JSON operators\<close>

fun show_nat :: "nat \<Rightarrow> string" where
  "show_nat n =
     (if n < 10 then [char_of (48 + n)]
      else show_nat (n div 10) @ [char_of (48 + n mod 10)])"

definition show_int :: "int \<Rightarrow> string" where
  "show_int i = (if i < 0 then CHR ''-'' # show_nat (nat (- i)) else show_nat (nat i))"

text \<open>\<^verbatim>\<open>j -> 'k'\<close>: the field of an object; SQL \<^verbatim>\<open>NULL\<close> (\<open>None\<close>) otherwise.\<close>

fun json_field :: "json option \<Rightarrow> string \<Rightarrow> json option" where
  "json_field (Some (JObj kvs)) k = map_of kvs k"
| "json_field _ k = None"

text \<open>
  The text \<^verbatim>\<open>->>\<close> gives: a scalar's text, or the JSON text of an array or object,
  which is kept as the document it denotes (it starts with a bracket, so it is no
  scalar's text).
\<close>

datatype sqltext = Scalar string | Document json

text \<open>\<^verbatim>\<open>j ->> 'k'\<close>: the field as text; \<^verbatim>\<open>NULL\<close> for a missing field and for JSON null.\<close>

definition json_field_text :: "json option \<Rightarrow> string \<Rightarrow> sqltext option" where
  "json_field_text j k =
     (case json_field j k of
        None \<Rightarrow> None
      | Some JNull \<Rightarrow> None
      | Some (JBool b) \<Rightarrow> Some (Scalar (if b then ''true'' else ''false''))
      | Some (JNum n) \<Rightarrow> Some (Scalar (show_int n))
      | Some (JStr s) \<Rightarrow> Some (Scalar s)
      | Some (JArr xs) \<Rightarrow> Some (Document (JArr xs))
      | Some (JObj kvs) \<Rightarrow> Some (Document (JObj kvs)))"

text \<open>\<^verbatim>\<open>x = 'lit'\<close> in a \<^verbatim>\<open>WHEN\<close>: true only for a non-null text equal to the literal.\<close>

definition sql_eq :: "sqltext option \<Rightarrow> string \<Rightarrow> bool" where
  "sql_eq x lit = (x = Some (Scalar lit))"

fun sql_max :: "int list \<Rightarrow> int option" where
  "sql_max [] = None"
| "sql_max (x # xs) = (case sql_max xs of None \<Rightarrow> Some x | Some m \<Rightarrow> Some (max x m))"

subsection \<open>The queries of the quality gate and of the summary\<close>

text \<open>\<^verbatim>\<open>SELECT COUNT(*), COUNT(DISTINCT id) FROM bronze.launches\<close>\<close>

definition select_total_unique :: "int \<Rightarrow> db \<Rightarrow> int \<times> int" where
  "select_total_unique t conn =
     (int (length (launches conn)), int (length (remdups (map row_id (launches conn)))))"

text \<open>\<^verbatim>\<open>WHERE data->>'name' IS NULL OR data->>'date_utc' IS NULL\<close>\<close>

definition missing_data :: "row \<Rightarrow> bool" where
  "missing_data r =
     (json_field_text (Some (data r)) ''name'' = None \<or>
      json_field_text (Some (data r)) ''date_utc'' = None)"

definition select_missing_data :: "int \<Rightarrow> db \<Rightarrow> int" where
  "select_missing_data t conn = int (length (filter missing_data (launches conn)))"

text \<open>\<^verbatim>\<open>data->'spaceTrack'->>'DECAYED'\<close>\<close>

definition decayed :: "row \<Rightarrow> sqltext option" where
  "decayed r = json_field_text (json_field (Some (data r)) ''spaceTrack'') ''DECAYED''"

definition select_starlink :: "int \<Rightarrow> db \<Rightarrow> int \<times> int \<times> int" where
  "select_starlink t conn =
     (int (length (starlink conn)),
      int (length (filter (\<lambda>r. sql_eq (decayed r) ''0'') (starlink conn))),
      int (length (filter (\<lambda>r. sql_eq (decayed r) ''1'') (starlink conn))))"

text \<open>\<^verbatim>\<open>WHERE extracted_at >= NOW() - INTERVAL '7 days'\<close>, the clock counting seconds.\<close>

definition select_recent :: "int \<Rightarrow> db \<Rightarrow> int" where
  "select_recent t conn =
     int (length (filter (\<lambda>r. extracted_at r \<ge> t - 7 * 86400) (launches conn)))"

definition select_summary :: "int \<Rightarrow> db \<Rightarrow> nat \<times> nat \<times> nat \<times> int option \<times> int option" where
  "select_summary t conn =
     (length (launches conn), length (starlink conn), length (rockets conn),
      sql_max (map extracted_at (launches conn)),
      sql_max (map extracted_at (starlink conn)))"

section \<open>The extractor\<close>

text \<open>\<^verbatim>\<open>SpaceXExtractor.get_connection\<close>\<close>

definition get_connection :: "db io" where
  "get_connection =
     try_except connect
       (\<lambda>e. bind_io (logger (Connection_failed e)) (\<lambda>_. raise_io e))"

text \<open>\<^verbatim>\<open>SpaceXExtractor.log_pipeline_run\<close>\<close>

definition log_pipeline_run ::
  "string \<Rightarrow> string \<Rightarrow> string \<Rightarrow> nat \<Rightarrow> string option \<Rightarrow> unit io" where
  "log_pipeline_run dag_id task_id st records err =
     frees_frame
       (try_except
          (bind_io get_connection (\<lambda>conn.
           bind_io (execute_insert_metadata (dag_id @ ''.'' @ task_id) st records err conn) (\<lambda>conn'.
           bind_io (commit conn') (\<lambda>_.
           close))))
          (\<lambda>e. logger (Failed_to_log e)))"

text \<open>\<^verbatim>\<open>requests.get(...)\<close>, \<^verbatim>\<open>response.raise_for_status()\<close>, \<^verbatim>\<open>response.json()\<close>\<close>

definition fetch :: "collection \<Rightarrow> json io" where
  "fetch c w =
     (case api w c of
        Get_raises e \<Rightarrow> (Inl e, w)
      | Status_raises e \<Rightarrow> (Inl e, w)
      | Json_raises e \<Rightarrow> (Inl e, w)
      | Body j \<Rightarrow> (Inr j, w))"

text \<open>
  The loop of \<^verbatim>\<open>extract_launches\<close> and \<^verbatim>\<open>extract_starlink\<close> over the records, with
  the connection's view and the two counters.
\<close>

fun upsert_counting ::
  "collection \<Rightarrow> json list \<Rightarrow> db \<Rightarrow> nat \<Rightarrow> nat \<Rightarrow> (db \<times> nat \<times> nat) io" where
  "upsert_counting c [] conn inserted_count updated_count =
     return_io (conn, inserted_count, updated_count)"
| "upsert_counting c (launch # rest) conn inserted_count updated_count =
     bind_io (lift_io (subscript_id launch)) (\<lambda>ident.
     bind_io now (\<lambda>ts.
     bind_io (execute_upsert_returning c ident launch ts ''spacex_api_v4'' conn) (\<lambda>(conn', is_inserted).
       if is_inserted
       then upsert_counting c rest conn' (inserted_count + 1) updated_count
       else upsert_counting c rest conn' inserted_count (updated_count + 1))))"

text \<open>The loop of \<^verbatim>\<open>extract_rockets\<close>: no flag is asked for and nothing is counted.\<close>

fun upsert_plain :: "collection \<Rightarrow> json list \<Rightarrow> db \<Rightarrow> db io" where
  "upsert_plain c [] conn = return_io conn"
| "upsert_plain c (rocket # rest) conn =
     bind_io (lift_io (subscript_id rocket)) (\<lambda>ident.
     bind_io now (\<lambda>ts.
     bind_io (execute_upsert c ident rocket ts ''spacex_api_v4'' conn) (\<lambda>conn'.
       upsert_plain c rest conn')))"

text \<open>
  The \<^verbatim>\<open>try\<close> block of \<^verbatim>\<open>extract_launches\<close> and \<^verbatim>\<open>extract_starlink\<close> up to the
  line that logs the counts.
\<close>

definition load_counted :: "collection \<Rightarrow> nat io" where
  "load_counted c =
     bind_io (fetch c) (\<lambda>body.
     bind_io (lift_io (py_items body)) (\<lambda>records.
     bind_io (logger (Retrieved c (length records))) (\<lambda>_.
     bind_io get_connection (\<lambda>conn.
     bind_io (upsert_counting c records conn 0 0) (\<lambda>(conn', inserted_count, updated_count).
     bind_io (commit conn') (\<lambda>_.
     bind_io close (\<lambda>_.
     bind_io (logger (Loaded_new_updated c inserted_count updated_count)) (\<lambda>_.
     return_io (length records)))))))))"

text \<open>The same part of \<^verbatim>\<open>extract_rockets\<close>.\<close>

definition load_plain :: "collection \<Rightarrow> nat io" where
  "load_plain c =
     bind_io (fetch c) (\<lambda>body.
     bind_io (lift_io (py_items body)) (\<lambda>records.
     bind_io (logger (Retrieved c (length records))) (\<lambda>_.
     bind_io get_connection (\<lambda>conn.
     bind_io (upsert_plain c records conn) (\<lambda>conn'.
     bind_io (commit conn') (\<lambda>_.
     bind_io close (\<lambda>_.
     bind_io (logger (Loaded_records c (length records))) (\<lambda>_.
     return_io (length records)))))))))"

text \<open>\<^verbatim>\<open>context.get('dag').dag_id if context.get('dag') else 'manual'\<close>\<close>

definition dag_id_of :: "string option \<Rightarrow> string" where
  "dag_id_of dag = (case dag of Some d \<Rightarrow> d | None \<Rightarrow> ''manual'')"

text \<open>
  What the three extraction methods share: the first log line, the \<^verbatim>\<open>try\<close> block
  (the load, then the ledger entry of the success), and the handler (the error line, the
  ledger entry of the failure, \<^verbatim>\<open>raise\<close>). The context is the dag's id, if there is a dag.
\<close>

definition extraction :: "collection \<Rightarrow> string \<Rightarrow> nat io \<Rightarrow> string option \<Rightarrow> nat io" where
  "extraction c task_id load dag =
     bind_io (logger (Extracting c)) (\<lambda>_.
     try_except
       (bind_io load (\<lambda>n.
        bind_io (log_pipeline_run (dag_id_of dag) task_id ''success'' n None) (\<lambda>_.
        return_io n)))
       (\<lambda>e.
        bind_io (logger (Error_extracting c e)) (\<lambda>_.
        bind_io (log_pipeline_run (dag_id_of dag) task_id ''failed'' 0 (Some (exc_str e))) (\<lambda>_.
        raise_io e))))"

definition extract_launches :: "string option \<Rightarrow> nat io" where
  "extract_launches = extraction Launches ''extract_launches'' (load_counted Launches)"

definition extract_starlink :: "string option \<Rightarrow> nat io" where
  "extract_starlink = extraction Starlink ''extract_starlink'' (load_counted Starlink)"

definition extract_rockets :: "string option \<Rightarrow> nat io" where
  "extract_rockets = extraction Rockets ''extract_rockets'' (load_plain Rockets)"

text \<open>\<^verbatim>\<open>SpaceXExtractor.get_extraction_summary\<close>\<close>

definition get_extraction_summary :: "(string \<times> summary_value) list io" where
  "get_extraction_summary =
     frees_frame
       (try_except
          (bind_io get_connection (\<lambda>conn.
           bind_io (execute_query select_summary conn) (\<lambda>(r0, r1, r2, r3, r4).
           bind_io close (\<lambda>_.
           return_io
             [(''launches_count'', Count r0),
              (''starlink_count'', Count r1),
              (''rockets_count'', Count r2),
              (''last_launch_update'', Last_update r3),
              (''last_starlink_update'', Last_update r4)]))))
          (\<lambda>e. bind_io (logger (Summary_failed e)) (\<lambda>_. return_io [])))"

section \<open>The quality gate and its caller\<close>

text \<open>\<^verbatim>\<open>database_utils.get_db_connection\<close>\<close>

definition get_db_connection :: "db io" where
  "get_db_connection = connect"

text \<open>\<^verbatim>\<open>database_utils.check_data_quality\<close>\<close>

definition check_data_quality :: "(string \<times> int) list io" where
  "check_data_quality =
     bind_io (logger Quality_running) (\<lambda>_.
     try_except
       (bind_io get_db_connection (\<lambda>conn.
        bind_io (execute_query select_total_unique conn) (\<lambda>(total, unique).
        bind_io (execute_query select_missing_data conn) (\<lambda>missing.
        bind_io (execute_query select_starlink conn) (\<lambda>(total', active, inactive).
        bind_io (execute_query select_recent conn) (\<lambda>recent.
        bind_io close (\<lambda>_.
        let checks =
              [(''launches_duplicates'', total - unique),
               (''launches_missing_data'', missing),
               (''starlink_total'', total'),
               (''starlink_active'', active),
               (''starlink_inactive'', inactive),
               (''recent_launches'', recent)]
        in bind_io (logger (Quality_completed checks)) (\<lambda>_.
           return_io checks))))))))
       (\<lambda>e. bind_io (logger (Quality_failed e)) (\<lambda>_. raise_io e)))"

text \<open>\<^verbatim>\<open>quality_results.get(key, default)\<close>\<close>

definition dict_get :: "(string \<times> int) list \<Rightarrow> string \<Rightarrow> int \<Rightarrow> int" where
  "dict_get d k dflt = (case map_of d k of Some v \<Rightarrow> v | None \<Rightarrow> dflt)"

text \<open>\<^verbatim>\<open>context['task_instance'].xcom_push(key=k, value=v)\<close>\<close>

definition xcom_push :: "string \<Rightarrow> (string \<times> int) list \<Rightarrow> unit io" where
  "xcom_push k v w = (Inr (), w\<lparr>xcom := xcom w @ [(k, v)]\<rparr>)"

text \<open>
  \<^verbatim>\<open>spacex_etl_dag.run_data_quality_checks\<close>; the value returned is the mapping the
  message is formatted from.
\<close>

definition run_data_quality_checks :: "(string \<times> int) list io" where
  "run_data_quality_checks =
     bind_io check_data_quality (\<lambda>quality_results.
     bind_io (xcom_push ''quality_checks'' quality_results) (\<lambda>_.
     if dict_get quality_results ''launches_missing_data'' 0 > 50
     then raise_io (Raised PlainException ''Too many launches with missing data'')
     else if dict_get quality_results ''starlink_total'' 0 = 0
     then raise_io (Raised PlainException ''No Starlink satellite data found'')
     else return_io quality_results))"

section \<open>Notions used in the statements\<close>

text \<open>The outcome of the next round trip under a fault schedule.\<close>

fun next_outcome :: "string option list \<Rightarrow> error + unit" where
  "next_outcome [] = Inr ()"
| "next_outcome (None # fs) = Inr ()"
| "next_outcome (Some m # fs) = Inl (Raised DatabaseError m)"

text \<open>
  The key under which a record is stored: its \<^verbatim>\<open>id\<close> entry as the \<^verbatim>\<open>id\<close> column takes
  it; \<open>None\<close> when the record has no usable id.
\<close>

definition key_of :: "(json \<Rightarrow> string + string) \<Rightarrow> json \<Rightarrow> string option" where
  "key_of idc x =
     (case subscript_id x of
        Inl e \<Rightarrow> None
      | Inr ident \<Rightarrow> (case idc ident of Inl m \<Rightarrow> None | Inr k \<Rightarrow> Some k))"

text \<open>The upserts of a whole batch, in order, on one table.\<close>

definition write_all ::
  "(json \<Rightarrow> string + string) \<Rightarrow> int \<Rightarrow> json list \<Rightarrow> row list \<Rightarrow> row list" where
  "write_all idc ts xs t = fold (\<lambda>x. upsert (the (key_of idc x)) x ts ''spacex_api_v4'') xs t"

text \<open>A fault schedule in which some round trips have been taken.\<close>

definition later :: "'a list \<Rightarrow> 'a list \<Rightarrow> bool" where
  "later fs fs' = (\<exists>n. fs' = drop n fs)"

text \<open>Only the fault schedule moved on.\<close>

definition frame :: "world \<Rightarrow> world \<Rightarrow> bool" where
  "frame w w' = (store w' = store w \<and> open_conns w' = open_conns w \<and> clock w' = clock w \<and>
     logged w' = logged w \<and> api w' = api w \<and> id_column w' = id_column w \<and> xcom w' = xcom w \<and>
     later (faults w) (faults w'))"

text \<open>The mapping the quality gate returns and the mapping the summary returns.\<close>

definition checks_of :: "int \<Rightarrow> db \<Rightarrow> (string \<times> int) list" where
  "checks_of t d =
     [(''launches_duplicates'', fst (select_total_unique t d) - snd (select_total_unique t d)),
      (''launches_missing_data'', select_missing_data t d),
      (''starlink_total'', fst (select_starlink t d)),
      (''starlink_active'', fst (snd (select_starlink t d))),
      (''starlink_inactive'', snd (snd (select_starlink t d))),
      (''recent_launches'', select_recent t d)]"

definition summary_of :: "db \<Rightarrow> (string \<times> summary_value) list" where
  "summary_of d =
     [(''launches_count'', Count (length (launches d))),
      (''starlink_count'', Count (length (starlink d))),
      (''rockets_count'', Count (length (rockets d))),
      (''last_launch_update'', Last_update (sql_max (map extracted_at (launches d)))),
      (''last_starlink_update'', Last_update (sql_max (map extracted_at (starlink d))))]"

text \<open>
  A call of the core, or a change of what surrounds it between two calls: what the API
  answers, the coming faults, the time.
\<close>

datatype call =
    Extract_launches "string option"
  | Extract_starlink "string option"
  | Extract_rockets "string option"
  | Data_quality_checks
  | Extraction_summary
  | Environment "collection \<Rightarrow> http_reply" "string option list" int

fun run_call :: "call \<Rightarrow> world \<Rightarrow> world" where
  "run_call (Extract_launches dag) w = snd (extract_launches dag w)"
| "run_call (Extract_starlink dag) w = snd (extract_starlink dag w)"
| "run_call (Extract_rockets dag) w = snd (extract_rockets dag w)"
| "run_call Data_quality_checks w = snd (run_data_quality_checks w)"
| "run_call Extraction_summary w = snd (get_extraction_summary w)"
| "run_call (Environment a fs t) w = w\<lparr>api := a, faults := fs, clock := t\<rparr>"

definition run_calls :: "call list \<Rightarrow> world \<Rightarrow> world" where
  "run_calls cs w = fold run_call cs w"

text \<open>At most one row per id, in each raw table.\<close>

definition unique_ids :: "db \<Rightarrow> bool" where
  "unique_ids d =
     (distinct (map row_id (launches d)) \<and> distinct (map row_id (starlink d)) \<and>
      distinct (map row_id (rockets d)))"

text \<open>
  The load of a collection gets as far as an open connection: the fetch and the decoding
  succeed, the body has a length, and the connect does not fail.
\<close>

definition connects :: "collection \<Rightarrow> world \<Rightarrow> bool" where
  "connects c w =
     (case api w c of
        Body body \<Rightarrow>
          (case py_items body of
             Inl e \<Rightarrow> False
           | Inr records \<Rightarrow> next_outcome (faults w) = Inr ())
      | _ \<Rightarrow> False)"

subsection \<open>Example worlds\<close>

text \<open>An \<^verbatim>\<open>id\<close> column of text that takes strings only.\<close>

definition text_id :: "json \<Rightarrow> string + string" where
  "text_id j = (case j of JStr s \<Rightarrow> Inr s | _ \<Rightarrow> Inl ''invalid id'')"

definition empty_db :: db where
  "empty_db = \<lparr>launches = [], starlink = [], rockets = [], pipeline_metadata = []\<rparr>"

definition world0 :: world where
  "world0 = \<lparr>store = empty_db, open_conns = 0, faults = [], clock = 0, logged = [],
         api = (\<lambda>c. Body (JArr [])), id_column = text_id, xcom = []\<rparr>"

definition L1 :: json where
  "L1 = JObj [(''id'', JStr ''L1''), (''name'', JStr ''Falcon Test''), (''date_utc'', JStr ''2024-01-01'')]"

definition L1v2 :: json where
  "L1v2 = JObj [(''id'', JStr ''L1''), (''name'', JStr ''Falcon Test v2''), (''date_utc'', JStr ''2024-01-01'')]"

text \<open>A row stored by an earlier run.\<close>

definition old_row :: row where
  "old_row = \<lparr>row_id = ''L1'', data = L1, extracted_at = - 5, source_system = ''spacex_api_v4''\<rparr>"

text \<open>A batch whose second record cannot be subscripted, on a table that has the first.\<close>

definition world_mid_batch :: world where
  "world_mid_batch = world0\<lparr>store := empty_db\<lparr>launches := [old_row]\<rparr>,
      api := (\<lambda>c. Body (JArr [L1v2, JNull]))\<rparr>"

text \<open>A second launch, and the worlds the statements are tried in.\<close>

definition L2 :: json where
  "L2 = JObj [(''id'', JStr ''L2''), (''name'', JStr ''Starlink 1''), (''date_utc'', JStr ''2024-02-01'')]"

definition world_two_records :: world where
  "world_two_records = world0\<lparr>store := empty_db\<lparr>launches := [old_row]\<rparr>,
      api := (\<lambda>c. Body (JArr [L1v2, L2]))\<rparr>"

definition R1 :: json where
  "R1 = JObj [(''id'', JStr ''R1''), (''name'', JStr ''Falcon 9'')]"

definition old_rocket :: row where
  "old_rocket = \<lparr>row_id = ''R1'', data = R1, extracted_at = - 5, source_system = ''spacex_api_v4''\<rparr>"

definition world_new_rocket :: world where
  "world_new_rocket = world0\<lparr>api := (\<lambda>c. Body (JArr [R1]))\<rparr>"

definition world_known_rocket :: world where
  "world_known_rocket = world0\<lparr>store := empty_db\<lparr>rockets := [old_rocket]\<rparr>,
      api := (\<lambda>c. Body (JArr [R1]))\<rparr>"

definition world_fetch_fails :: world where
  "world_fetch_fails = world0\<lparr>api := (\<lambda>c. Get_raises (Raised RequestException ''Read timed out''))\<rparr>"

text \<open>Rows for the scenarios of the quality gate.\<close>

definition launch_without_date :: "nat \<Rightarrow> row" where
  "launch_without_date i =
     \<lparr>row_id = show_nat i,
      data = JObj [(''id'', JStr (show_nat i)), (''name'', JStr ''Starlink mission'')],
      extracted_at = 0, source_system = ''spacex_api_v4''\<rparr>"

definition satellite :: "string \<Rightarrow> (string \<times> json) list \<Rightarrow> row" where
  "satellite k space_track =
     \<lparr>row_id = k, data = JObj [(''id'', JStr k), (''spaceTrack'', JObj space_track)],
      extracted_at = 0, source_system = ''spacex_api_v4''\<rparr>"

definition world_sixty_missing :: world where
  "world_sixty_missing = world0\<lparr>store := empty_db\<lparr>
      launches := map launch_without_date [0..<60],
      starlink := map (\<lambda>i. satellite (show_nat i) [(''OBJECT_NAME'', JStr ''STARLINK'')]) [0..<5]\<rparr>\<rparr>"

definition world_satellites :: world where
  "world_satellites = world0\<lparr>store := empty_db\<lparr>starlink :=
      [satellite ''S1'' [(''DECAYED'', JNum 0)],
       satellite ''S2'' [(''DECAYED'', JNum 1)],
       satellite ''S3'' [(''DECAYED'', JNull)],
       satellite ''S4'' [(''OBJECT_NAME'', JStr ''STARLINK-4'')],
       \<lparr>row_id = ''S5'', data = JObj [(''id'', JStr ''S5'')], extracted_at = 0,
         source_system = ''spacex_api_v4''\<rparr>]\<rparr>\<rparr>"

text \<open>The rockets table after a later run, and a connection lost at the first upsert.\<close>

definition world_rocket_refreshed :: world where
  "world_rocket_refreshed =
     world0\<lparr>store := empty_db\<lparr>rockets := [old_rocket\<lparr>extracted_at := 7\<rparr>]\<rparr>,
       api := (\<lambda>c. Body (JArr [R1]))\<rparr>"

definition world_connection_lost :: world where
  "world_connection_lost =
     world0\<lparr>api := (\<lambda>c. Body (JArr [L1])),
       faults := [None, Some ''server closed the connection unexpectedly'']\<rparr>"

text \<open>A first run on empty tables, and the run that follows it a day later.\<close>

definition world_first_run :: world where
  "world_first_run = world0\<lparr>api := (\<lambda>c. Body (JArr [L1]))\<rparr>"

definition world_second_run :: world where
  "world_second_run =
     (snd (extract_launches None world_first_run))
       \<lparr>api := (api (snd (extract_launches None world_first_run)))
                 (Launches := Body (JArr [L1v2])),
        clock := 86400\<rparr>"

text \<open>A batch in which the first and the last record have the same id.\<close>

definition world_duplicates :: world where
  "world_duplicates = world0\<lparr>api := (\<lambda>c. Body (JArr [L1, L2, L1v2]))\<rparr>"

section \<open>Basic facts\<close>

lemma round_trip_eq: "round_trip w = (next_outcome (faults w), w\<lparr>faults := tl (faults w)\<rparr>)"
  by (cases "faults w" rule: next_outcome.cases) (simp_all add: round_trip_def)

lemma io_cases:
  obtains (Raise) e w' where "m w = (Inl e, w')" | (Return) x w' where "m w = (Inr x, w')"
  by (metis prod.exhaust_sel sum.exhaust_sel)

lemmas io_defs = bind_io_def try_except_def frees_frame_def return_io_def raise_io_def lift_io_def logger_def
  now_def close_def connect_def commit_def get_connection_def get_db_connection_def
  execute_query_def execute_insert_metadata_def round_trip_eq

lemma table_of_set_table [simp]: "table_of c (set_table c t d) = t"
  by (cases c) simp_all

lemma set_table_set_table [simp]: "set_table c t (set_table c t' d) = set_table c t d"
  by (cases c) simp_all

lemma set_table_table_of [simp]: "set_table c (table_of c d) d = d"
  by (cases c) simp_all

lemma pipeline_metadata_set_table [simp]:
  "pipeline_metadata (set_table c t d) = pipeline_metadata d"
  by (cases c) simp_all

subsection \<open>The ledger\<close>

lemma log_pipeline_run_returns:
  "fst (log_pipeline_run dag_id task_id st records err w) = Inr ()"
  by (simp add: log_pipeline_run_def io_defs split: sum.splits)

lemma log_pipeline_run_Inr:
  "\<exists>w'. log_pipeline_run dag_id task_id st records err w = (Inr (), w')"
  by (metis log_pipeline_run_returns prod.collapse)

lemma log_pipeline_run_effect:
  "log_pipeline_run dag_id task_id st records err w = (r, w') \<Longrightarrow>
     r = Inr () \<and>
     launches (store w') = launches (store w) \<and>
     starlink (store w') = starlink (store w) \<and>
     rockets (store w') = rockets (store w) \<and>
     clock w' = clock w \<and> api w' = api w \<and> id_column w' = id_column w \<and> xcom w' = xcom w \<and>
     (pipeline_metadata (store w') = pipeline_metadata (store w) \<and>
        (\<exists>e. last (logged w') = Failed_to_log e)
      \<or> pipeline_metadata (store w') = pipeline_metadata (store w) @
           [\<lparr>pipeline_name = dag_id @ ''.'' @ task_id, status = st, records_processed = records,
             error_message = err, run_date = clock w\<rparr>] \<and>
         logged w' = logged w \<and> open_conns w' = open_conns w)"
  by (auto simp: log_pipeline_run_def io_defs split: sum.splits)

lemma log_pipeline_run_ok:
  "next_outcome (faults w) = Inr () \<Longrightarrow> next_outcome (tl (faults w)) = Inr () \<Longrightarrow>
   next_outcome (tl (tl (faults w))) = Inr () \<Longrightarrow>
   log_pipeline_run dag_id task_id st records err w =
     (Inr (), w\<lparr>faults := tl (tl (tl (faults w))),
                store := (store w)\<lparr>pipeline_metadata := pipeline_metadata (store w) @
           [\<lparr>pipeline_name = dag_id @ ''.'' @ task_id, status = st, records_processed = records,
             error_message = err, run_date = clock w\<rparr>]\<rparr>\<rparr>)"
  by (simp add: log_pipeline_run_def io_defs)

subsection \<open>The shape of an extraction\<close>

lemma extraction_raises:
  assumes "load (w\<lparr>logged := logged w @ [Extracting c]\<rparr>) = (Inl e, w1)"
  shows "extraction c task_id load dag w =
           (Inl e, snd (log_pipeline_run (dag_id_of dag) task_id ''failed'' 0 (Some (exc_str e))
                          (w1\<lparr>logged := logged w1 @ [Error_extracting c e]\<rparr>)))"
proof -
  obtain w2 where "log_pipeline_run (dag_id_of dag) task_id ''failed'' 0 (Some (exc_str e))
      (w1\<lparr>logged := logged w1 @ [Error_extracting c e]\<rparr>) = (Inr (), w2)"
    using log_pipeline_run_Inr by blast
  with assms show ?thesis
    by (simp add: extraction_def bind_io_def try_except_def logger_def raise_io_def)
qed

lemma extraction_returns:
  assumes "load (w\<lparr>logged := logged w @ [Extracting c]\<rparr>) = (Inr n, w1)"
  shows "extraction c task_id load dag w =
           (Inr n, snd (log_pipeline_run (dag_id_of dag) task_id ''success'' n None w1))"
proof -
  obtain w2 where "log_pipeline_run (dag_id_of dag) task_id ''success'' n None w1 = (Inr (), w2)"
    using log_pipeline_run_Inr by blast
  with assms show ?thesis
    by (simp add: extraction_def bind_io_def try_except_def logger_def return_io_def)
qed

lemma extraction_outcome:
  "fst (extraction c task_id load dag w) = fst (load (w\<lparr>logged := logged w @ [Extracting c]\<rparr>))"
  by (cases rule: io_cases [of load "w\<lparr>logged := logged w @ [Extracting c]\<rparr>"])
     (simp_all add: extraction_raises extraction_returns)

subsection \<open>The record loop and the loads\<close>

lemma later_refl [simp, intro!]: "later fs fs"
  unfolding later_def by (rule exI [of _ 0]) simp

lemma later_tl [intro!]: "later fs fs' \<Longrightarrow> later fs (tl fs')"
  unfolding later_def by (metis drop_Suc tl_drop)

lemma later_drop [intro!]: "later fs fs' \<Longrightarrow> later fs (drop n fs')"
  unfolding later_def by (metis drop_drop)

lemma later_trans: "later fs fs' \<Longrightarrow> later fs' fs'' \<Longrightarrow> later fs fs''"
  unfolding later_def by (metis drop_drop)

lemma later_tl_left: "later (tl fs) fs' \<Longrightarrow> later fs fs'"
  unfolding later_def by (metis drop_Suc)

lemma later_set: "later fs fs' \<Longrightarrow> set fs' \<subseteq> set fs"
  unfolding later_def by (auto dest: in_set_dropD)

lemma frame_refl [simp]: "frame w w"
  unfolding frame_def by simp

lemma frame_tl [simp]: "frame w (w\<lparr>faults := tl (faults w)\<rparr>)"
  unfolding frame_def by auto

lemma frame_step: "frame (w\<lparr>faults := tl (faults w)\<rparr>) w' \<Longrightarrow> frame w w'"
  unfolding frame_def by (auto intro: later_tl_left)

lemma length_upsert:
  "length (upsert k d ts src t) = (if returning_inserted k t then Suc (length t) else length t)"
  by (simp add: upsert_def returning_inserted_def)

lemma upsert_counting_frame:
  "upsert_counting c xs conn i u w = (r, w') \<Longrightarrow> frame w w'"
proof (induction xs arbitrary: conn i u w)
  case Nil
  then show ?case by (auto simp: return_io_def)
next
  case (Cons x xs)
  show ?case
  proof (cases "subscript_id x")
    case (Inl e)
    with Cons.prems show ?thesis by (auto simp: io_defs)
  next
    case (Inr ident)
    show ?thesis
    proof (cases "next_outcome (faults w)")
      case (Inl e)
      with Cons.prems Inr show ?thesis
        by (auto simp: io_defs execute_upsert_returning_def)
    next
      case ok: (Inr u')
      show ?thesis
      proof (cases "id_column w ident")
        case (Inl m)
        with Cons.prems Inr ok show ?thesis
          by (auto simp: io_defs execute_upsert_returning_def)
      next
        case k: (Inr k)
        from Cons.prems Inr ok k
        have "\<exists>conn' i' u'. upsert_counting c xs conn' i' u' (w\<lparr>faults := tl (faults w)\<rparr>) = (r, w')"
          by (auto simp: io_defs execute_upsert_returning_def split: if_splits)
        then obtain conn' i' u' where
          "upsert_counting c xs conn' i' u' (w\<lparr>faults := tl (faults w)\<rparr>) = (r, w')" by blast
        from Cons.IH [OF this] show ?thesis by (rule frame_step)
      qed
    qed
  qed
qed

lemma upsert_plain_frame:
  "upsert_plain c xs conn w = (r, w') \<Longrightarrow> frame w w'"
proof (induction xs arbitrary: conn w)
  case Nil
  then show ?case by (auto simp: return_io_def)
next
  case (Cons x xs)
  show ?case
  proof (cases "subscript_id x")
    case (Inl e)
    with Cons.prems show ?thesis by (auto simp: io_defs)
  next
    case (Inr ident)
    show ?thesis
    proof (cases "next_outcome (faults w)")
      case (Inl e)
      with Cons.prems Inr show ?thesis
        by (auto simp: io_defs execute_upsert_def)
    next
      case ok: (Inr u')
      show ?thesis
      proof (cases "id_column w ident")
        case (Inl m)
        with Cons.prems Inr ok show ?thesis
          by (auto simp: io_defs execute_upsert_def)
      next
        case k: (Inr k)
        from Cons.prems Inr ok k
        have "\<exists>conn'. upsert_plain c xs conn' (w\<lparr>faults := tl (faults w)\<rparr>) = (r, w')"
          by (auto simp: io_defs execute_upsert_def)
        then obtain conn' where
          "upsert_plain c xs conn' (w\<lparr>faults := tl (faults w)\<rparr>) = (r, w')" by blast
        from Cons.IH [OF this] show ?thesis by (rule frame_step)
      qed
    qed
  qed
qed

lemma upsert_counting_result:
  "upsert_counting c xs conn i u w = (Inr (conn', i', u'), w') \<Longrightarrow>
     (\<forall>x \<in> set xs. key_of (id_column w) x \<noteq> None) \<and>
     conn' = set_table c (write_all (id_column w) (clock w) xs (table_of c conn)) conn \<and>
     i' + u' = i + u + length xs \<and>
     length (table_of c conn') + i = length (table_of c conn) + i'"
proof (induction xs arbitrary: conn i u w)
  case Nil
  then show ?case by (auto simp: return_io_def write_all_def)
next
  case (Cons x xs)
  from Cons.prems obtain ident where ident: "subscript_id x = Inr ident"
    by (cases "subscript_id x") (auto simp: io_defs)
  from Cons.prems ident have ok: "next_outcome (faults w) = Inr ()"
    by (cases "next_outcome (faults w)") (auto simp: io_defs execute_upsert_returning_def)
  from Cons.prems ident ok obtain k where k: "id_column w ident = Inr k"
    by (cases "id_column w ident") (auto simp: io_defs execute_upsert_returning_def)
  let ?w = "w\<lparr>faults := tl (faults w)\<rparr>"
  let ?t = "upsert k x (clock w) ''spacex_api_v4'' (table_of c conn)"
  have key: "key_of (id_column w) x = Some k"
    by (simp add: key_of_def ident k)
  show ?case
  proof (cases "returning_inserted k (table_of c conn)")
    case True
    with Cons.prems ident ok k
    have "upsert_counting c xs (set_table c ?t conn) (i + 1) u ?w = (Inr (conn', i', u'), w')"
      by (simp add: io_defs execute_upsert_returning_def)
    from Cons.IH [OF this] key True show ?thesis
      by (auto simp: write_all_def length_upsert)
  next
    case False
    with Cons.prems ident ok k
    have "upsert_counting c xs (set_table c ?t conn) i (u + 1) ?w = (Inr (conn', i', u'), w')"
      by (simp add: io_defs execute_upsert_returning_def)
    from Cons.IH [OF this] key False show ?thesis
      by (auto simp: write_all_def length_upsert)
  qed
qed

lemma upsert_plain_result:
  "upsert_plain c xs conn w = (Inr conn', w') \<Longrightarrow>
     (\<forall>x \<in> set xs. key_of (id_column w) x \<noteq> None) \<and>
     conn' = set_table c (write_all (id_column w) (clock w) xs (table_of c conn)) conn"
proof (induction xs arbitrary: conn w)
  case Nil
  then show ?case by (auto simp: return_io_def write_all_def)
next
  case (Cons x xs)
  from Cons.prems obtain ident where ident: "subscript_id x = Inr ident"
    by (cases "subscript_id x") (auto simp: io_defs)
  from Cons.prems ident have ok: "next_outcome (faults w) = Inr ()"
    by (cases "next_outcome (faults w)") (auto simp: io_defs execute_upsert_def)
  from Cons.prems ident ok obtain k where k: "id_column w ident = Inr k"
    by (cases "id_column w ident") (auto simp: io_defs execute_upsert_def)
  let ?w = "w\<lparr>faults := tl (faults w)\<rparr>"
  let ?t = "upsert k x (clock w) ''spacex_api_v4'' (table_of c conn)"
  have key: "key_of (id_column w) x = Some k"
    by (simp add: key_of_def ident k)
  from Cons.prems ident ok k
  have "upsert_plain c xs (set_table c ?t conn) ?w = (Inr conn', w')"
    by (simp add: io_defs execute_upsert_def)
  from Cons.IH [OF this] key show ?case
    by (auto simp: write_all_def)
qed

lemma load_counted_Inl:
  assumes "load_counted c w = (Inl e, w1)"
  shows "store w1 = store w \<and> clock w1 = clock w \<and> api w1 = api w \<and>
         id_column w1 = id_column w \<and> xcom w1 = xcom w \<and>
         later (faults w) (faults w1) \<and>
         (open_conns w1 = open_conns w \<or> open_conns w1 = Suc (open_conns w))"
  using assms
  by (auto simp: load_counted_def fetch_def io_defs frame_def
      split: http_reply.splits sum.splits prod.splits dest!: upsert_counting_frame
      intro: later_tl_left)

lemma load_counted_Inr:
  assumes "load_counted c w = (Inr n, w1)"
  shows "\<exists>body records ins upd.
           api w c = Body body \<and> py_items body = Inr records \<and> n = length records \<and>
           (\<forall>x \<in> set records. key_of (id_column w) x \<noteq> None) \<and>
           store w1 = set_table c (write_all (id_column w) (clock w) records (table_of c (store w))) (store w) \<and>
           logged w1 = logged w @ [Retrieved c n, Loaded_new_updated c ins upd] \<and>
           ins + upd = n \<and>
           length (table_of c (store w1)) = length (table_of c (store w)) + ins \<and>
           open_conns w1 = open_conns w \<and> clock w1 = clock w \<and> api w1 = api w \<and>
           id_column w1 = id_column w \<and> xcom w1 = xcom w \<and>
           later (faults w) (faults w1)"
  using assms
  apply (simp add: load_counted_def fetch_def io_defs 
      split: http_reply.splits sum.splits prod.splits)
  apply (elim conjE exE)
  apply (frule upsert_counting_frame)
  apply (drule upsert_counting_result)
  apply (auto simp: frame_def intro: later_tl_left)
  done

lemma load_plain_Inl:
  assumes "load_plain c w = (Inl e, w1)"
  shows "store w1 = store w \<and> clock w1 = clock w \<and> api w1 = api w \<and>
         id_column w1 = id_column w \<and> xcom w1 = xcom w \<and>
         later (faults w) (faults w1) \<and>
         (open_conns w1 = open_conns w \<or> open_conns w1 = Suc (open_conns w))"
  using assms
  by (auto simp: load_plain_def fetch_def io_defs frame_def
      split: http_reply.splits sum.splits prod.splits dest!: upsert_plain_frame
      intro: later_tl_left)

lemma load_plain_Inr:
  assumes "load_plain c w = (Inr n, w1)"
  shows "\<exists>body records.
           api w c = Body body \<and> py_items body = Inr records \<and> n = length records \<and>
           (\<forall>x \<in> set records. key_of (id_column w) x \<noteq> None) \<and>
           store w1 = set_table c (write_all (id_column w) (clock w) records (table_of c (store w))) (store w) \<and>
           logged w1 = logged w @ [Retrieved c n, Loaded_records c n] \<and>
           open_conns w1 = open_conns w \<and> clock w1 = clock w \<and> api w1 = api w \<and>
           id_column w1 = id_column w \<and> xcom w1 = xcom w \<and>
           later (faults w) (faults w1)"
  using assms
  apply (simp add: load_plain_def fetch_def io_defs 
      split: http_reply.splits sum.splits prod.splits)
  apply (elim conjE exE)
  apply (frule upsert_plain_frame)
  apply (drule upsert_plain_result)
  apply (auto simp: frame_def intro: later_tl_left)
  done

lemma log_pipeline_run_faults:
  "log_pipeline_run dag_id task_id st records err w = (r, w') \<Longrightarrow>
     later (faults w) (faults w') \<and>
     (open_conns w' = open_conns w \<or> open_conns w' = Suc (open_conns w))"
  by (auto simp: log_pipeline_run_def io_defs split: sum.splits)

subsection \<open>The extractions\<close>

lemma extraction_Inl_elim:
  assumes "extraction c task_id load dag w = (Inl e, w')"
  obtains w1 where "load (w\<lparr>logged := logged w @ [Extracting c]\<rparr>) = (Inl e, w1)"
    and "log_pipeline_run (dag_id_of dag) task_id ''failed'' 0 (Some (exc_str e))
           (w1\<lparr>logged := logged w1 @ [Error_extracting c e]\<rparr>) = (Inr (), w')"
proof (cases rule: io_cases [of load "w\<lparr>logged := logged w @ [Extracting c]\<rparr>"])
  case (Raise e1 w1)
  from extraction_raises [where load=load and w=w and c=c, OF Raise] assms
  have "e1 = e" and w': "w' = snd (log_pipeline_run (dag_id_of dag) task_id ''failed'' 0 (Some (exc_str e1))
                          (w1\<lparr>logged := logged w1 @ [Error_extracting c e1]\<rparr>))"
    by auto
  with Raise that log_pipeline_run_Inr show ?thesis
    by (metis snd_conv)
next
  case (Return n w1)
  from extraction_returns [where load=load and w=w and c=c, OF Return] assms show ?thesis by simp
qed

lemma extraction_Inr_elim:
  assumes "extraction c task_id load dag w = (Inr n, w')"
  obtains w1 where "load (w\<lparr>logged := logged w @ [Extracting c]\<rparr>) = (Inr n, w1)"
    and "log_pipeline_run (dag_id_of dag) task_id ''success'' n None w1 = (Inr (), w')"
proof (cases rule: io_cases [of load "w\<lparr>logged := logged w @ [Extracting c]\<rparr>"])
  case (Raise e1 w1)
  from extraction_raises [where load=load and w=w and c=c, OF Raise] assms show ?thesis by simp
next
  case (Return m w1)
  from extraction_returns [where load=load and w=w and c=c, OF Return] assms
  have "m = n" and w': "w' = snd (log_pipeline_run (dag_id_of dag) task_id ''success'' m None w1)"
    by auto
  with Return that log_pipeline_run_Inr show ?thesis
    by (metis snd_conv)
qed

lemmas run_defs = extract_launches_def extract_starlink_def extract_rockets_def extraction_def
  load_counted_def load_plain_def fetch_def log_pipeline_run_def execute_upsert_returning_def
  execute_upsert_def upsert_def returning_inserted_def dag_id_of_def io_defs


lemma log_pipeline_run_logged:
  "log_pipeline_run dag_id task_id st records err w = (r, w') \<Longrightarrow>
     \<exists>rest. logged w' = logged w @ rest"
  by (auto simp: log_pipeline_run_def io_defs split: sum.splits)

lemma quiet_next: "set fs \<subseteq> {None} \<Longrightarrow> next_outcome fs = Inr ()"
  by (cases fs rule: next_outcome.cases) simp_all

lemma quiet_tl: "set fs \<subseteq> {None} \<Longrightarrow> set (tl fs) \<subseteq> {None}"
  by (cases fs) simp_all

lemma quiet_later: "set fs \<subseteq> {None} \<Longrightarrow> later fs fs' \<Longrightarrow> set fs' \<subseteq> {None}"
  using later_set by blast

lemma log_pipeline_run_quiet:
  assumes "set (faults w) \<subseteq> {None}"
  shows "open_conns (snd (log_pipeline_run dag_id task_id st records err w)) = open_conns w"
  using assms by (simp add: log_pipeline_run_ok quiet_next quiet_tl)

lemma extraction_counted_failure:
  assumes "extraction c task_id (load_counted c) dag w = (Inl e, w')"
  shows "launches (store w') = launches (store w) \<and> starlink (store w') = starlink (store w) \<and>
         rockets (store w') = rockets (store w)"
proof -
  from assms obtain w1 where
    load: "load_counted c (w\<lparr>logged := logged w @ [Extracting c]\<rparr>) = (Inl e, w1)" and
    ledger: "log_pipeline_run (dag_id_of dag) task_id ''failed'' 0 (Some (exc_str e))
           (w1\<lparr>logged := logged w1 @ [Error_extracting c e]\<rparr>) = (Inr (), w')"
    by (rule extraction_Inl_elim)
  from load_counted_Inl [OF load] log_pipeline_run_effect [OF ledger] show ?thesis by simp
qed

lemma extraction_plain_failure:
  assumes "extraction c task_id (load_plain c) dag w = (Inl e, w')"
  shows "launches (store w') = launches (store w) \<and> starlink (store w') = starlink (store w) \<and>
         rockets (store w') = rockets (store w)"
proof -
  from assms obtain w1 where
    load: "load_plain c (w\<lparr>logged := logged w @ [Extracting c]\<rparr>) = (Inl e, w1)" and
    ledger: "log_pipeline_run (dag_id_of dag) task_id ''failed'' 0 (Some (exc_str e))
           (w1\<lparr>logged := logged w1 @ [Error_extracting c e]\<rparr>) = (Inr (), w')"
    by (rule extraction_Inl_elim)
  from load_plain_Inl [OF load] log_pipeline_run_effect [OF ledger] show ?thesis by simp
qed

lemma table_of_eqI:
  "launches d' = launches d \<Longrightarrow> starlink d' = starlink d \<Longrightarrow> rockets d' = rockets d \<Longrightarrow>
   table_of c d' = table_of c d"
  by (cases c) simp_all

lemma extraction_counted_success:
  assumes "extraction c task_id (load_counted c) dag w = (Inr n, w')"
  shows "\<exists>body records ins upd rest.
           api w c = Body body \<and> py_items body = Inr records \<and> n = length records \<and>
           (\<forall>x \<in> set records. key_of (id_column w) x \<noteq> None) \<and>
           table_of c (store w') = write_all (id_column w) (clock w) records (table_of c (store w)) \<and>
           logged w' = logged w @ [Extracting c, Retrieved c n, Loaded_new_updated c ins upd] @ rest \<and>
           ins + upd = n \<and>
           length (table_of c (store w')) = length (table_of c (store w)) + ins"
proof -
  let ?w = "w\<lparr>logged := logged w @ [Extracting c]\<rparr>"
  from assms obtain w1 where
    load: "load_counted c ?w = (Inr n, w1)" and
    ledger: "log_pipeline_run (dag_id_of dag) task_id ''success'' n None w1 = (Inr (), w')"
    by (rule extraction_Inr_elim)
  from load_counted_Inr [OF load] obtain body records ins upd where
    l: "api ?w c = Body body" "py_items body = Inr records" "n = length records"
       "\<forall>x \<in> set records. key_of (id_column ?w) x \<noteq> None"
       "store w1 = set_table c (write_all (id_column ?w) (clock ?w) records (table_of c (store ?w))) (store ?w)"
       "logged w1 = logged ?w @ [Retrieved c n, Loaded_new_updated c ins upd]"
       "ins + upd = n"
       "length (table_of c (store w1)) = length (table_of c (store ?w)) + ins"
    by blast
  from log_pipeline_run_effect [OF ledger]
  have same: "table_of c (store w') = table_of c (store w1)"
    by (intro table_of_eqI) simp_all
  from log_pipeline_run_logged [OF ledger] obtain rest where "logged w' = logged w1 @ rest" by blast
  with l same show ?thesis by auto
qed

lemma extraction_plain_success:
  assumes "extraction c task_id (load_plain c) dag w = (Inr n, w')"
  shows "\<exists>body records rest.
           api w c = Body body \<and> py_items body = Inr records \<and> n = length records \<and>
           (\<forall>x \<in> set records. key_of (id_column w) x \<noteq> None) \<and>
           table_of c (store w') = write_all (id_column w) (clock w) records (table_of c (store w)) \<and>
           logged w' = logged w @ [Extracting c, Retrieved c n, Loaded_records c n] @ rest"
proof -
  let ?w = "w\<lparr>logged := logged w @ [Extracting c]\<rparr>"
  from assms obtain w1 where
    load: "load_plain c ?w = (Inr n, w1)" and
    ledger: "log_pipeline_run (dag_id_of dag) task_id ''success'' n None w1 = (Inr (), w')"
    by (rule extraction_Inr_elim)
  from load_plain_Inr [OF load] obtain body records where
    l: "api ?w c = Body body" "py_items body = Inr records" "n = length records"
       "\<forall>x \<in> set records. key_of (id_column ?w) x \<noteq> None"
       "store w1 = set_table c (write_all (id_column ?w) (clock ?w) records (table_of c (store ?w))) (store ?w)"
       "logged w1 = logged ?w @ [Retrieved c n, Loaded_records c n]"
    by blast
  from log_pipeline_run_effect [OF ledger]
  have same: "table_of c (store w') = table_of c (store w1)"
    by (intro table_of_eqI) simp_all
  from log_pipeline_run_logged [OF ledger] obtain rest where "logged w' = logged w1 @ rest" by blast
  with l same show ?thesis by auto
qed


lemmas example_defs = world0_def empty_db_def text_id_def L1_def L1v2_def old_row_def quoted_def

subsection \<open>Round trips\<close>

lemma tl_as_drop: "tl xs = drop 1 xs"
  by (simp add: drop_Suc)

lemma upsert_counting_round_trips:
  "upsert_counting c xs conn i u w = (Inr res, w') \<Longrightarrow> faults w' = drop (length xs) (faults w)"
proof (induction xs arbitrary: conn i u w)
  case Nil
  then show ?case by (auto simp: return_io_def)
next
  case (Cons x xs)
  from Cons.prems obtain ident where ident: "subscript_id x = Inr ident"
    by (cases "subscript_id x") (auto simp: io_defs)
  from Cons.prems ident have ok: "next_outcome (faults w) = Inr ()"
    by (cases "next_outcome (faults w)") (auto simp: io_defs execute_upsert_returning_def)
  from Cons.prems ident ok obtain k where k: "id_column w ident = Inr k"
    by (cases "id_column w ident") (auto simp: io_defs execute_upsert_returning_def)
  from Cons.prems ident ok k
  have "\<exists>conn' i' u'. upsert_counting c xs conn' i' u' (w\<lparr>faults := tl (faults w)\<rparr>) = (Inr res, w')"
    by (auto simp: io_defs execute_upsert_returning_def split: if_splits)
  then obtain conn' i' u' where
    "upsert_counting c xs conn' i' u' (w\<lparr>faults := tl (faults w)\<rparr>) = (Inr res, w')" by blast
  from Cons.IH [OF this] show ?case by (simp add: drop_Suc)
qed

lemma load_counted_round_trips:
  assumes "load_counted c w = (Inr n, w1)"
  shows "faults w1 = drop (n + 2) (faults w)"
  using assms
  apply (simp add: load_counted_def fetch_def io_defs 
      split: http_reply.splits sum.splits prod.splits)
  apply (elim conjE exE)
  apply (drule upsert_counting_round_trips)
  apply (auto simp: tl_as_drop)
  done

lemma log_pipeline_run_round_trips:
  "log_pipeline_run dag_id task_id st records err w = (r, w') \<Longrightarrow>
     \<exists>k\<le>3. faults w' = drop k (faults w)"
  by (auto simp: log_pipeline_run_def io_defs tl_as_drop split: sum.splits
      intro: exI [of _ "Suc 0"] exI [of _ "Suc (Suc 0)"] exI [of _ "Suc (Suc (Suc 0))"])


lemma extraction_counted_round_trips:
  assumes "extraction c task_id (load_counted c) dag w = (Inr n, w')"
  shows "\<exists>k\<le>3. faults w' = drop (n + 2 + k) (faults w)"
proof -
  let ?w = "w\<lparr>logged := logged w @ [Extracting c]\<rparr>"
  from assms obtain w1 where
    load: "load_counted c ?w = (Inr n, w1)" and
    ledger: "log_pipeline_run (dag_id_of dag) task_id ''success'' n None w1 = (Inr (), w')"
    by (rule extraction_Inr_elim)
  from log_pipeline_run_round_trips [OF ledger] obtain k where "k \<le> 3" "faults w' = drop k (faults w1)"
    by blast
  with load_counted_round_trips [OF load] show ?thesis
    by (auto simp: add.commute)
qed

lemmas example_defs2 = example_defs L2_def R1_def old_rocket_def world_two_records_def world_new_rocket_def world_known_rocket_def
  world_fetch_fails_def

subsection \<open>The quality gate and the summary\<close>

lemma check_data_quality_Inr:
  assumes "check_data_quality w = (Inr checks, w')"
  shows "checks = checks_of (clock w) (store w) \<and> store w' = store w \<and>
         open_conns w' = open_conns w \<and> xcom w' = xcom w \<and> clock w' = clock w \<and>
         logged w' = logged w @ [Quality_running, Quality_completed checks] \<and>
         faults w' = drop 5 (faults w)"
  using assms
  by (auto simp: check_data_quality_def io_defs checks_of_def tl_as_drop Let_def eval_nat_numeral
      split: sum.splits prod.splits)

lemma check_data_quality_Inl:
  assumes "check_data_quality w = (Inl e, w')"
  shows "store w' = store w \<and> xcom w' = xcom w \<and> clock w' = clock w \<and>
         (\<exists>m. e = Raised DatabaseError m) \<and>
         logged w' = logged w @ [Quality_running, Quality_failed e] \<and>
         later (faults w) (faults w')"
  using assms
  by (auto simp: check_data_quality_def io_defs Let_def
      split: sum.splits prod.splits elim: next_outcome.elims)

lemma check_data_quality_quiet:
  assumes "set (faults w) \<subseteq> {None}"
  shows "\<exists>w'. check_data_quality w = (Inr (checks_of (clock w) (store w)), w') \<and>
           open_conns w' = open_conns w"
  using assms
  by (simp add: check_data_quality_def io_defs checks_of_def Let_def quiet_next quiet_tl
      split: prod.splits)

lemma get_extraction_summary_eq:
  "get_extraction_summary w =
     (case next_outcome (faults w) of
        Inl e \<Rightarrow> (Inr [], w\<lparr>faults := tl (faults w),
                              logged := logged w @ [Connection_failed e, Summary_failed e]\<rparr>)
      | Inr _ \<Rightarrow>
          (case next_outcome (tl (faults w)) of
             Inl e \<Rightarrow> (Inr [], w\<lparr>faults := tl (tl (faults w)),
                                   logged := logged w @ [Summary_failed e]\<rparr>)
           | Inr _ \<Rightarrow> (Inr (summary_of (store w)), w\<lparr>faults := tl (tl (faults w))\<rparr>)))"
  by (simp add: get_extraction_summary_def io_defs summary_of_def select_summary_def
      split: sum.splits)


declare show_nat.simps [simp del]

lemma show_int_0: "show_int 0 = ''0''"
  by code_simp

lemma show_int_1: "show_int 1 = ''1''"
  by code_simp

lemma three_way_count:
  "(\<And>x. \<not> (P x \<and> Q x)) \<Longrightarrow>
   length (filter P xs) + length (filter Q xs) + length (filter (\<lambda>x. \<not> P x \<and> \<not> Q x) xs) =
   length xs"
  by (induction xs) auto

lemma active_not_inactive: "\<not> (sql_eq (decayed r) ''0'' \<and> sql_eq (decayed r) ''1'')"
  by (simp add: sql_eq_def)

lemma dict_get_checks_of:
  "dict_get (checks_of t d) ''launches_missing_data'' 0 = int (length (filter missing_data (launches d)))"
  "dict_get (checks_of t d) ''starlink_total'' 0 = int (length (starlink d))"
  "dict_get (checks_of t d) ''starlink_active'' 0 =
     int (length (filter (\<lambda>r. sql_eq (decayed r) ''0'') (starlink d)))"
  "dict_get (checks_of t d) ''starlink_inactive'' 0 =
     int (length (filter (\<lambda>r. sql_eq (decayed r) ''1'') (starlink d)))"
  by (simp_all add: dict_get_def checks_of_def select_missing_data_def select_starlink_def)

lemmas example_defs3 = example_defs2 launch_without_date_def satellite_def world_sixty_missing_def
  world_satellites_def

lemmas quality_defs = check_data_quality_def run_data_quality_checks_def xcom_push_def dict_get_def
  select_total_unique_def select_missing_data_def missing_data_def select_starlink_def
  select_recent_def decayed_def sql_eq_def json_field_text_def show_int_0 show_int_1 Let_def io_defs

lemma sixty_missing:
  "length (filter (missing_data \<circ> launch_without_date) xs) = length xs"
  by (induction xs)
     (simp_all add: missing_data_def launch_without_date_def json_field_text_def)

subsection \<open>Connections\<close>

lemmas example_defs4 = example_defs3 world_rocket_refreshed_def world_connection_lost_def

lemma connects_logged [simp]: "connects c (w\<lparr>logged := l\<rparr>) = connects c w"
  by (simp add: connects_def split: http_reply.splits sum.splits)










subsection \<open>A batch of one record\<close>

lemma key_of_SomeD:
  "key_of idc x = Some k \<Longrightarrow> \<exists>ident. subscript_id x = Inr ident \<and> idc ident = Inr k"
  by (auto simp: key_of_def split: sum.splits)

lemma table_of_pipeline_metadata_update [simp]:
  "table_of c (d\<lparr>pipeline_metadata := m\<rparr>) = table_of c d"
  by (cases c) simp_all

lemma extraction_single:
  assumes quiet: "set (faults w) \<subseteq> {None}"
    and api: "api w c = Body (JArr [r])"
    and key: "key_of (id_column w) r = Some k"
  shows "fst (extraction c task_id (load_counted c) dag w) = Inr 1 \<and>
         table_of c (store (snd (extraction c task_id (load_counted c) dag w))) =
           upsert k r (clock w) ''spacex_api_v4'' (table_of c (store w)) \<and>
         logged (snd (extraction c task_id (load_counted c) dag w)) =
           logged w @ [Extracting c, Retrieved c 1,
             Loaded_new_updated c (if returning_inserted k (table_of c (store w)) then 1 else 0)
               (if returning_inserted k (table_of c (store w)) then 0 else 1)] \<and>
         set (faults (snd (extraction c task_id (load_counted c) dag w))) \<subseteq> {None} \<and>
         id_column (snd (extraction c task_id (load_counted c) dag w)) = id_column w"
proof -
  from key_of_SomeD [OF key] obtain ident where
    ident: "subscript_id r = Inr ident" "id_column w ident = Inr k" by blast
  have quiet': "next_outcome (faults w) = Inr ()" "next_outcome (tl (faults w)) = Inr ()"
    "next_outcome (tl (tl (faults w))) = Inr ()" "next_outcome (tl (tl (tl (faults w)))) = Inr ()"
    "next_outcome (tl (tl (tl (tl (faults w))))) = Inr ()"
    "next_outcome (tl (tl (tl (tl (tl (faults w)))))) = Inr ()"
    "set (tl (tl (tl (tl (tl (tl (faults w))))))) \<subseteq> {None}"
    using quiet by (simp_all add: quiet_next quiet_tl)
  show ?thesis
    using api ident quiet'
    by (simp add: extraction_def load_counted_def fetch_def log_pipeline_run_def
        execute_upsert_returning_def io_defs)
qed

subsection \<open>One row per id\<close>

lemma row_ids_upsert:
  "map row_id (upsert k d ts src t) =
     (if k \<in> set (map row_id t) then map row_id t else map row_id t @ [k])"
  by (induction t) (auto simp: upsert_def)

lemma distinct_upsert:
  "distinct (map row_id t) \<Longrightarrow> distinct (map row_id (upsert k d ts src t))"
  by (simp add: row_ids_upsert)

lemma distinct_write_all:
  "distinct (map row_id t) \<Longrightarrow> distinct (map row_id (write_all idc ts xs t))"
  unfolding write_all_def
  by (induction xs arbitrary: t) (simp_all add: distinct_upsert)

lemma write_all_snoc:
  "write_all idc ts (xs @ [x]) t =
     upsert (the (key_of idc x)) x ts ''spacex_api_v4'' (write_all idc ts xs t)"
  by (simp add: write_all_def)

lemma upsert_holds:
  "k \<in> set (map row_id (upsert k d ts src t)) \<and>
   (\<forall>r \<in> set (upsert k d ts src t). row_id r = k \<longrightarrow> data r = d)"
proof
  show "k \<in> set (map row_id (upsert k d ts src t))"
    by (simp add: row_ids_upsert)
  show "\<forall>r \<in> set (upsert k d ts src t). row_id r = k \<longrightarrow> data r = d"
    by (auto simp: upsert_def)
qed

lemma upsert_other:
  assumes "k' \<noteq> k"
    and "k \<in> set (map row_id t) \<and> (\<forall>r \<in> set t. row_id r = k \<longrightarrow> data r = d)"
  shows "k \<in> set (map row_id (upsert k' d' ts src t)) \<and>
         (\<forall>r \<in> set (upsert k' d' ts src t). row_id r = k \<longrightarrow> data r = d)"
proof
  from assms show "k \<in> set (map row_id (upsert k' d' ts src t))"
    by (simp add: row_ids_upsert)
  from assms show "\<forall>r \<in> set (upsert k' d' ts src t). row_id r = k \<longrightarrow> data r = d"
    by (auto simp: upsert_def)
qed

lemma write_all_last_wins:
  assumes "i < length xs"
    and "key_of idc (xs ! i) = Some k"
    and "\<forall>j. i < j \<and> j < length xs \<longrightarrow> key_of idc (xs ! j) \<noteq> Some k"
    and "\<forall>x \<in> set xs. key_of idc x \<noteq> None"
  shows "k \<in> set (map row_id (write_all idc ts xs t)) \<and>
         (\<forall>r \<in> set (write_all idc ts xs t). row_id r = k \<longrightarrow> data r = xs ! i)"
  using assms
proof (induction xs rule: rev_induct)
  case Nil
  then show ?case by simp
next
  case (snoc x xs)
  show ?case
  proof (cases "i = length xs")
    case True
    with snoc.prems(2) have "the (key_of idc x) = k" by simp
    with True show ?thesis
      unfolding write_all_snoc using upsert_holds [of k x ts "''spacex_api_v4''"] by simp
  next
    case False
    with snoc.prems(1) have i: "i < length xs" by simp
    from snoc.prems(3) i have later: "\<forall>j. i < j \<and> j < length xs \<longrightarrow> key_of idc (xs ! j) \<noteq> Some k"
      by (auto simp: nth_append split: if_splits)
    from snoc.prems(2) i have key: "key_of idc (xs ! i) = Some k" by (simp add: nth_append)
    from snoc.prems(4) have all: "\<forall>x \<in> set xs. key_of idc x \<noteq> None" by simp
    from snoc.prems(3) [rule_format, of "length xs"] i have "key_of idc x \<noteq> Some k" by simp
    moreover from snoc.prems(4) obtain k' where "key_of idc x = Some k'" by auto
    ultimately have k': "the (key_of idc x) \<noteq> k" by auto
    from snoc.IH [OF i key later all] i show ?thesis
      unfolding write_all_snoc
      by (intro upsert_other [OF k']) (simp add: nth_append)
  qed
qed


lemma unique_ids_set_table:
  "unique_ids d \<Longrightarrow> distinct (map row_id t) \<Longrightarrow> unique_ids (set_table c t d)"
  by (cases c) (simp_all add: unique_ids_def)

lemma unique_ids_table_of: "unique_ids d \<Longrightarrow> distinct (map row_id (table_of c d))"
  by (cases c) (simp_all add: unique_ids_def)

lemma unique_ids_same:
  "launches d' = launches d \<Longrightarrow> starlink d' = starlink d \<Longrightarrow> rockets d' = rockets d \<Longrightarrow>
   unique_ids d' = unique_ids d"
  by (simp add: unique_ids_def)

lemma extraction_counted_unique:
  assumes "unique_ids (store w)"
  shows "unique_ids (store (snd (extraction c task_id (load_counted c) dag w)))"
proof (cases "extraction c task_id (load_counted c) dag w")
  case (Pair r w')
  show ?thesis
  proof (cases r)
    case (Inl e)
    from extraction_counted_failure [OF Pair [unfolded Inl]] assms Pair show ?thesis
      by (simp add: unique_ids_def)
  next
    case (Inr n)
    let ?w = "w\<lparr>logged := logged w @ [Extracting c]\<rparr>"
    from Pair Inr obtain w1 where
      load: "load_counted c ?w = (Inr n, w1)" and
      ledger: "log_pipeline_run (dag_id_of dag) task_id ''success'' n None w1 = (Inr (), w')"
      by (auto elim: extraction_Inr_elim)
    from load_counted_Inr [OF load] obtain records where
      "store w1 = set_table c (write_all (id_column w) (clock w) records (table_of c (store w))) (store w)"
      by auto
    with assms have "unique_ids (store w1)"
      by (simp add: unique_ids_set_table distinct_write_all unique_ids_table_of)
    with log_pipeline_run_effect [OF ledger] Pair show ?thesis
      by (simp add: unique_ids_def)
  qed
qed

lemma extraction_plain_unique:
  assumes "unique_ids (store w)"
  shows "unique_ids (store (snd (extraction c task_id (load_plain c) dag w)))"
proof (cases "extraction c task_id (load_plain c) dag w")
  case (Pair r w')
  show ?thesis
  proof (cases r)
    case (Inl e)
    from extraction_plain_failure [OF Pair [unfolded Inl]] assms Pair show ?thesis
      by (simp add: unique_ids_def)
  next
    case (Inr n)
    let ?w = "w\<lparr>logged := logged w @ [Extracting c]\<rparr>"
    from Pair Inr obtain w1 where
      load: "load_plain c ?w = (Inr n, w1)" and
      ledger: "log_pipeline_run (dag_id_of dag) task_id ''success'' n None w1 = (Inr (), w')"
      by (auto elim: extraction_Inr_elim)
    from load_plain_Inr [OF load] obtain records where
      "store w1 = set_table c (write_all (id_column w) (clock w) records (table_of c (store w))) (store w)"
      by auto
    with assms have "unique_ids (store w1)"
      by (simp add: unique_ids_set_table distinct_write_all unique_ids_table_of)
    with log_pipeline_run_effect [OF ledger] Pair show ?thesis
      by (simp add: unique_ids_def)
  qed
qed

lemma run_data_quality_checks_store: "store (snd (run_data_quality_checks w)) = store w"
proof (cases rule: io_cases [of check_data_quality w])
  case (Raise e w')
  with check_data_quality_Inl [OF Raise] show ?thesis
    by (simp add: run_data_quality_checks_def bind_io_def)
next
  case (Return checks w')
  with check_data_quality_Inr [OF Return] show ?thesis
    by (simp add: run_data_quality_checks_def bind_io_def xcom_push_def raise_io_def return_io_def)
qed

lemma get_extraction_summary_store: "store (snd (get_extraction_summary w)) = store w"
  by (simp add: get_extraction_summary_eq split: sum.splits)

lemma run_call_unique: "unique_ids (store w) \<Longrightarrow> unique_ids (store (run_call c w))"
  by (cases c)
     (simp_all add: extract_launches_def extract_starlink_def extract_rockets_def
        extraction_counted_unique extraction_plain_unique run_data_quality_checks_store
        get_extraction_summary_store)

lemma run_calls_unique: "unique_ids (store w) \<Longrightarrow> unique_ids (store (run_calls cs w))"
  unfolding run_calls_def
  by (induction cs arbitrary: w) (simp_all add: run_call_unique)

lemma distinct_count: "distinct xs \<Longrightarrow> length (remdups xs) = length xs"
  by simp

section \<open>The claims\<close>

text \<open>
  C5. The ledger append never propagates a failure of its own: for every input and every
  fault schedule \<^verbatim>\<open>log_pipeline_run\<close> returns normally; when its connection, insert or
  commit fails, the ledger is as before and the failure is the last line logged. So the
  outcome of an extraction, the value returned or the error raised, is the outcome of its
  fetch and load alone, whatever happens to the ledger write.
\<close>

theorem log_pipeline_run_never_raises:
  "fst (log_pipeline_run dag_id task_id st records err w) = Inr () \<and>
   (pipeline_metadata (store (snd (log_pipeline_run dag_id task_id st records err w))) =
      pipeline_metadata (store w) \<and>
      (\<exists>e. last (logged (snd (log_pipeline_run dag_id task_id st records err w))) = Failed_to_log e)
    \<or> pipeline_metadata (store (snd (log_pipeline_run dag_id task_id st records err w))) =
        pipeline_metadata (store w) @
          [\<lparr>pipeline_name = dag_id @ ''.'' @ task_id, status = st, records_processed = records,
            error_message = err, run_date = clock w\<rparr>]) \<and>
   fst (extract_launches dag w) =
     fst (load_counted Launches (w\<lparr>logged := logged w @ [Extracting Launches]\<rparr>)) \<and>
   fst (extract_starlink dag w) =
     fst (load_counted Starlink (w\<lparr>logged := logged w @ [Extracting Starlink]\<rparr>)) \<and>
   fst (extract_rockets dag w) =
     fst (load_plain Rockets (w\<lparr>logged := logged w @ [Extracting Rockets]\<rparr>))"
proof -
  obtain r w' where run: "log_pipeline_run dag_id task_id st records err w = (r, w')"
    by (cases "log_pipeline_run dag_id task_id st records err w")
  from log_pipeline_run_effect [OF run] run show ?thesis
    by (auto simp: extract_launches_def extract_starlink_def extract_rockets_def
        extraction_outcome)
qed

text \<open>
  C10. An extraction commits once, after the loop: when it raises, whether at the fetch, at
  a record's id, at a record's upsert or at the commit, the three raw tables are as they
  were before the call, and when it returns the table holds the writes of the whole batch.
\<close>

theorem batch_all_or_nothing:
  "(extract_launches dag w = (Inl e, w') \<longrightarrow>
      launches (store w') = launches (store w) \<and> starlink (store w') = starlink (store w) \<and>
      rockets (store w') = rockets (store w)) \<and>
   (extract_starlink dag w = (Inl e, w') \<longrightarrow>
      launches (store w') = launches (store w) \<and> starlink (store w') = starlink (store w) \<and>
      rockets (store w') = rockets (store w)) \<and>
   (extract_rockets dag w = (Inl e, w') \<longrightarrow>
      launches (store w') = launches (store w) \<and> starlink (store w') = starlink (store w) \<and>
      rockets (store w') = rockets (store w)) \<and>
   (extract_launches dag w = (Inr n, w') \<longrightarrow>
      (\<exists>body records. api w Launches = Body body \<and> py_items body = Inr records \<and>
         launches (store w') = write_all (id_column w) (clock w) records (launches (store w)))) \<and>
   (extract_starlink dag w = (Inr n, w') \<longrightarrow>
      (\<exists>body records. api w Starlink = Body body \<and> py_items body = Inr records \<and>
         starlink (store w') = write_all (id_column w) (clock w) records (starlink (store w)))) \<and>
   (extract_rockets dag w = (Inr n, w') \<longrightarrow>
      (\<exists>body records. api w Rockets = Body body \<and> py_items body = Inr records \<and>
         rockets (store w') = write_all (id_column w) (clock w) records (rockets (store w))))"
proof (intro conjI impI)
  assume "extract_launches dag w = (Inr n, w')"
  from extraction_counted_success [OF this [unfolded extract_launches_def]]
  show "\<exists>body records. api w Launches = Body body \<and> py_items body = Inr records \<and>
         launches (store w') = write_all (id_column w) (clock w) records (launches (store w))"
    by auto
next
  assume "extract_starlink dag w = (Inr n, w')"
  from extraction_counted_success [OF this [unfolded extract_starlink_def]]
  show "\<exists>body records. api w Starlink = Body body \<and> py_items body = Inr records \<and>
         starlink (store w') = write_all (id_column w) (clock w) records (starlink (store w))"
    by auto
next
  assume "extract_rockets dag w = (Inr n, w')"
  from extraction_plain_success [OF this [unfolded extract_rockets_def]]
  show "\<exists>body records. api w Rockets = Body body \<and> py_items body = Inr records \<and>
         rockets (store w') = write_all (id_column w) (clock w) records (rockets (store w))"
    by auto
qed (simp_all add: extract_launches_def extract_starlink_def extract_rockets_def
      extraction_counted_failure extraction_plain_failure)

theorem batch_all_or_nothing_witness:
  "fst (extract_launches None world_mid_batch) =
     Inl (Raised TypeError (quoted ''NoneType'' @ '' object is not subscriptable'')) \<and>
   launches (store (snd (extract_launches None world_mid_batch))) = [old_row]"
proof -
  have run: "fst (extract_launches None world_mid_batch) =
     Inl (Raised TypeError (quoted ''NoneType'' @ '' object is not subscriptable''))"
    by (simp add: run_defs world_mid_batch_def example_defs)
  then have "extract_launches None world_mid_batch =
     (Inl (Raised TypeError (quoted ''NoneType'' @ '' object is not subscriptable'')),
      snd (extract_launches None world_mid_batch))"
    by (metis prod.collapse)
  from batch_all_or_nothing [of None world_mid_batch _ "snd (extract_launches None world_mid_batch)"] this run
  show ?thesis
    by (simp add: world_mid_batch_def example_defs)
qed

text \<open>
  C1, as the code has it. For launches and starlink, a batch that loads is classified by
  the upsert statement's own flag, one round trip per record: the logged
  \<^verbatim>\<open>inserted_count\<close> and \<^verbatim>\<open>updated_count\<close> add up to the number of records, and
  \<^verbatim>\<open>inserted_count\<close> is the number of rows the table gained. \<^verbatim>\<open>extract_rockets\<close>
  sends the statement without \<^verbatim>\<open>RETURNING\<close>, classifies nothing and reports only the
  number of records.
\<close>

theorem counts_partition_batch:
  "(extract_launches dag w = (Inr n, w') \<longrightarrow>
      (\<exists>body records ins upd rest k.
         api w Launches = Body body \<and> py_items body = Inr records \<and> n = length records \<and>
         logged w' = logged w @
           [Extracting Launches, Retrieved Launches n, Loaded_new_updated Launches ins upd] @ rest \<and>
         ins + upd = n \<and>
         length (launches (store w')) = length (launches (store w)) + ins \<and>
         k \<le> 3 \<and> faults w' = drop (n + 2 + k) (faults w))) \<and>
   (extract_starlink dag w = (Inr n, w') \<longrightarrow>
      (\<exists>body records ins upd rest k.
         api w Starlink = Body body \<and> py_items body = Inr records \<and> n = length records \<and>
         logged w' = logged w @
           [Extracting Starlink, Retrieved Starlink n, Loaded_new_updated Starlink ins upd] @ rest \<and>
         ins + upd = n \<and>
         length (starlink (store w')) = length (starlink (store w)) + ins \<and>
         k \<le> 3 \<and> faults w' = drop (n + 2 + k) (faults w))) \<and>
   (extract_rockets dag w = (Inr n, w') \<longrightarrow>
      (\<exists>body records rest.
         api w Rockets = Body body \<and> py_items body = Inr records \<and> n = length records \<and>
         logged w' = logged w @
           [Extracting Rockets, Retrieved Rockets n, Loaded_records Rockets n] @ rest))"
proof (intro conjI impI)
  assume run: "extract_launches dag w = (Inr n, w')"
  from extraction_counted_success [OF run [unfolded extract_launches_def]]
    extraction_counted_round_trips [OF run [unfolded extract_launches_def]]
  show "\<exists>body records ins upd rest k.
         api w Launches = Body body \<and> py_items body = Inr records \<and> n = length records \<and>
         logged w' = logged w @
           [Extracting Launches, Retrieved Launches n, Loaded_new_updated Launches ins upd] @ rest \<and>
         ins + upd = n \<and>
         length (launches (store w')) = length (launches (store w)) + ins \<and>
         k \<le> 3 \<and> faults w' = drop (n + 2 + k) (faults w)"
    by (elim exE conjE) (simp, blast)
next
  assume run: "extract_starlink dag w = (Inr n, w')"
  from extraction_counted_success [OF run [unfolded extract_starlink_def]]
    extraction_counted_round_trips [OF run [unfolded extract_starlink_def]]
  show "\<exists>body records ins upd rest k.
         api w Starlink = Body body \<and> py_items body = Inr records \<and> n = length records \<and>
         logged w' = logged w @
           [Extracting Starlink, Retrieved Starlink n, Loaded_new_updated Starlink ins upd] @ rest \<and>
         ins + upd = n \<and>
         length (starlink (store w')) = length (starlink (store w)) + ins \<and>
         k \<le> 3 \<and> faults w' = drop (n + 2 + k) (faults w)"
    by (elim exE conjE) (simp, blast)
next
  assume run: "extract_rockets dag w = (Inr n, w')"
  from extraction_plain_success [OF run [unfolded extract_rockets_def]]
  show "\<exists>body records rest.
         api w Rockets = Body body \<and> py_items body = Inr records \<and> n = length records \<and>
         logged w' = logged w @
           [Extracting Rockets, Retrieved Rockets n, Loaded_records Rockets n] @ rest"
    by auto
qed

theorem counts_partition_batch_witness:
  "fst (extract_launches None world_two_records) = Inr 2 \<and>
   logged (snd (extract_launches None world_two_records)) =
     [Extracting Launches, Retrieved Launches 2, Loaded_new_updated Launches 1 1] \<and>
   length (launches (store (snd (extract_launches None world_two_records)))) = 2"
proof -
  have run: "fst (extract_launches None world_two_records) = Inr 2"
    by (simp add: run_defs example_defs2)
  then have "extract_launches None world_two_records =
      (Inr 2, snd (extract_launches None world_two_records))"
    by (metis prod.collapse)
  from counts_partition_batch [of None world_two_records 2 "snd (extract_launches None world_two_records)"]
    this run
  show ?thesis
    by (simp add: run_defs example_defs2)
qed

text \<open>
  C1 as stated fails for rockets: a batch that inserts a rocket and a batch that updates
  one return and log the same, the number of records; no count of inserts or updates exists.
\<close>

theorem rockets_writes_not_classified:
  "rockets (store world_new_rocket) = [] \<and>
   fst (extract_rockets None world_new_rocket) = Inr 1 \<and>
   logged (snd (extract_rockets None world_new_rocket)) =
     [Extracting Rockets, Retrieved Rockets 1, Loaded_records Rockets 1] \<and>
   rockets (store world_known_rocket) = [old_rocket] \<and>
   fst (extract_rockets None world_known_rocket) = Inr 1 \<and>
   logged (snd (extract_rockets None world_known_rocket)) =
     [Extracting Rockets, Retrieved Rockets 1, Loaded_records Rockets 1]"
  by (simp add: run_defs example_defs2)

text \<open>
  C4. When an extraction raises, the error it raises is the error of its fetch, decoding or
  load, unchanged, and before it is raised the ledger has received one entry with status
  \<^verbatim>\<open>failed\<close>, no records processed and the error's text; the write is best-effort, and
  when it fails the ledger is as before and that failure is the last line logged.
\<close>

theorem failure_recorded_then_reraised:
  "(extract_launches dag w = (Inl e, w') \<longrightarrow>
      fst (load_counted Launches (w\<lparr>logged := logged w @ [Extracting Launches]\<rparr>)) = Inl e \<and>
      (pipeline_metadata (store w') = pipeline_metadata (store w) @
         [\<lparr>pipeline_name = dag_id_of dag @ ''.extract_launches'', status = ''failed'',
           records_processed = 0, error_message = Some (exc_str e), run_date = clock w\<rparr>]
       \<or> pipeline_metadata (store w') = pipeline_metadata (store w) \<and>
         (\<exists>e'. last (logged w') = Failed_to_log e'))) \<and>
   (extract_starlink dag w = (Inl e, w') \<longrightarrow>
      fst (load_counted Starlink (w\<lparr>logged := logged w @ [Extracting Starlink]\<rparr>)) = Inl e \<and>
      (pipeline_metadata (store w') = pipeline_metadata (store w) @
         [\<lparr>pipeline_name = dag_id_of dag @ ''.extract_starlink'', status = ''failed'',
           records_processed = 0, error_message = Some (exc_str e), run_date = clock w\<rparr>]
       \<or> pipeline_metadata (store w') = pipeline_metadata (store w) \<and>
         (\<exists>e'. last (logged w') = Failed_to_log e'))) \<and>
   (extract_rockets dag w = (Inl e, w') \<longrightarrow>
      fst (load_plain Rockets (w\<lparr>logged := logged w @ [Extracting Rockets]\<rparr>)) = Inl e \<and>
      (pipeline_metadata (store w') = pipeline_metadata (store w) @
         [\<lparr>pipeline_name = dag_id_of dag @ ''.extract_rockets'', status = ''failed'',
           records_processed = 0, error_message = Some (exc_str e), run_date = clock w\<rparr>]
       \<or> pipeline_metadata (store w') = pipeline_metadata (store w) \<and>
         (\<exists>e'. last (logged w') = Failed_to_log e')))"
proof -
  have counted: "fst (load_counted c (w\<lparr>logged := logged w @ [Extracting c]\<rparr>)) = Inl e \<and>
      (pipeline_metadata (store w') = pipeline_metadata (store w) @
         [\<lparr>pipeline_name = dag_id_of dag @ ''.'' @ task_id, status = ''failed'',
           records_processed = 0, error_message = Some (exc_str e), run_date = clock w\<rparr>]
       \<or> pipeline_metadata (store w') = pipeline_metadata (store w) \<and>
         (\<exists>e'. last (logged w') = Failed_to_log e'))"
    if "extraction c task_id (load_counted c) dag w = (Inl e, w')" for c task_id
  proof -
    from that obtain w1 where
      load: "load_counted c (w\<lparr>logged := logged w @ [Extracting c]\<rparr>) = (Inl e, w1)" and
      ledger: "log_pipeline_run (dag_id_of dag) task_id ''failed'' 0 (Some (exc_str e))
           (w1\<lparr>logged := logged w1 @ [Error_extracting c e]\<rparr>) = (Inr (), w')"
      by (rule extraction_Inl_elim)
    from load_counted_Inl [OF load] log_pipeline_run_effect [OF ledger] load show ?thesis
      by auto
  qed
  have plain: "fst (load_plain c (w\<lparr>logged := logged w @ [Extracting c]\<rparr>)) = Inl e \<and>
      (pipeline_metadata (store w') = pipeline_metadata (store w) @
         [\<lparr>pipeline_name = dag_id_of dag @ ''.'' @ task_id, status = ''failed'',
           records_processed = 0, error_message = Some (exc_str e), run_date = clock w\<rparr>]
       \<or> pipeline_metadata (store w') = pipeline_metadata (store w) \<and>
         (\<exists>e'. last (logged w') = Failed_to_log e'))"
    if "extraction c task_id (load_plain c) dag w = (Inl e, w')" for c task_id
  proof -
    from that obtain w1 where
      load: "load_plain c (w\<lparr>logged := logged w @ [Extracting c]\<rparr>) = (Inl e, w1)" and
      ledger: "log_pipeline_run (dag_id_of dag) task_id ''failed'' 0 (Some (exc_str e))
           (w1\<lparr>logged := logged w1 @ [Error_extracting c e]\<rparr>) = (Inr (), w')"
      by (rule extraction_Inl_elim)
    from load_plain_Inl [OF load] log_pipeline_run_effect [OF ledger] load show ?thesis
      by auto
  qed
  show ?thesis
    using counted [of Launches "''extract_launches''"] counted [of Starlink "''extract_starlink''"]
      plain [of Rockets "''extract_rockets''"]
    by (simp add: extract_launches_def extract_starlink_def extract_rockets_def)
qed

theorem failure_recorded_then_reraised_witness:
  "fst (extract_launches (Some ''spacex_etl_pipeline'') world_fetch_fails) =
     Inl (Raised RequestException ''Read timed out'') \<and>
   pipeline_metadata (store (snd (extract_launches (Some ''spacex_etl_pipeline'') world_fetch_fails))) =
     [\<lparr>pipeline_name = ''spacex_etl_pipeline.extract_launches'', status = ''failed'',
       records_processed = 0, error_message = Some ''Read timed out'', run_date = 0\<rparr>]"
proof -
  let ?run = "extract_launches (Some ''spacex_etl_pipeline'') world_fetch_fails"
  have run: "fst ?run = Inl (Raised RequestException ''Read timed out'')"
    by (simp add: run_defs example_defs2)
  then have "?run = (Inl (Raised RequestException ''Read timed out''), snd ?run)"
    by (metis prod.collapse)
  from failure_recorded_then_reraised [of "Some ''spacex_etl_pipeline''" world_fetch_fails _ "snd ?run"]
    this run
  show ?thesis
    by (simp add: run_defs example_defs2)
qed

text \<open>
  C7. The quality gate's satellite counts split the rows three ways by the text of
  \<^verbatim>\<open>data->'spaceTrack'->>'DECAYED'\<close>: active when it is \<^verbatim>\<open>'0'\<close>, inactive when it is
  \<^verbatim>\<open>'1'\<close>, unknown otherwise. No row is both active and inactive, so active plus inactive
  is at most the total and the rows that are neither number the total minus the two.
\<close>

theorem satellite_counts_partition:
  assumes "check_data_quality w = (Inr checks, w')"
  shows "dict_get checks ''starlink_total'' 0 = int (length (starlink (store w))) \<and>
         dict_get checks ''starlink_active'' 0 =
           int (length (filter (\<lambda>r. sql_eq (decayed r) ''0'') (starlink (store w)))) \<and>
         dict_get checks ''starlink_inactive'' 0 =
           int (length (filter (\<lambda>r. sql_eq (decayed r) ''1'') (starlink (store w)))) \<and>
         dict_get checks ''starlink_active'' 0 + dict_get checks ''starlink_inactive'' 0
           \<le> dict_get checks ''starlink_total'' 0 \<and>
         int (length (filter (\<lambda>r. \<not> sql_eq (decayed r) ''0'' \<and> \<not> sql_eq (decayed r) ''1'')
                (starlink (store w)))) =
           dict_get checks ''starlink_total'' 0 - dict_get checks ''starlink_active'' 0
             - dict_get checks ''starlink_inactive'' 0"
proof -
  from check_data_quality_Inr [OF assms] have checks: "checks = checks_of (clock w) (store w)"
    by simp
  have "length (filter (\<lambda>r. sql_eq (decayed r) ''0'') (starlink (store w))) +
        length (filter (\<lambda>r. sql_eq (decayed r) ''1'') (starlink (store w))) +
        length (filter (\<lambda>r. \<not> sql_eq (decayed r) ''0'' \<and> \<not> sql_eq (decayed r) ''1'')
          (starlink (store w))) = length (starlink (store w))"
    by (rule three_way_count) (rule active_not_inactive)
  then show ?thesis
    unfolding checks dict_get_checks_of by linarith
qed

theorem satellite_counts_partition_witness:
  "fst (check_data_quality world_satellites) =
     Inr [(''launches_duplicates'', 0), (''launches_missing_data'', 0), (''starlink_total'', 5),
          (''starlink_active'', 1), (''starlink_inactive'', 1), (''recent_launches'', 0)] \<and>
   length (filter (\<lambda>r. \<not> sql_eq (decayed r) ''0'' \<and> \<not> sql_eq (decayed r) ''1'')
     (starlink (store world_satellites))) = 3"
proof -
  let ?checks = "[(''launches_duplicates'', 0), (''launches_missing_data'', 0), (''starlink_total'', 5),
          (''starlink_active'', 1), (''starlink_inactive'', 1), (''recent_launches'', 0 :: int)]"
  have run: "fst (check_data_quality world_satellites) = Inr ?checks"
    by (simp add: quality_defs example_defs3)
  then have "check_data_quality world_satellites = (Inr ?checks, snd (check_data_quality world_satellites))"
    by (metis prod.collapse)
  from satellite_counts_partition [OF this] run show ?thesis
    by (simp add: dict_get_def)
qed

text \<open>
  C6. Given the gate's result, \<^verbatim>\<open>run_data_quality_checks\<close> raises exactly when
  \<^verbatim>\<open>launches_missing_data\<close> is above 50 or \<^verbatim>\<open>starlink_total\<close> is 0; no other entry of
  the result takes part in the decision. With 60 launches that lack \<^verbatim>\<open>date_utc\<close> and 5
  satellites without a decay flag it raises for the 50-row threshold.
\<close>

theorem quality_gate_decision:
  assumes "check_data_quality w = (Inr checks, w1)"
  shows "fst (run_data_quality_checks w) =
           (if 50 < dict_get checks ''launches_missing_data'' 0
            then Inl (Raised PlainException ''Too many launches with missing data'')
            else if dict_get checks ''starlink_total'' 0 = 0
            then Inl (Raised PlainException ''No Starlink satellite data found'')
            else Inr checks) \<and>
         ((\<exists>e. fst (run_data_quality_checks w) = Inl e) \<longleftrightarrow>
            50 < dict_get checks ''launches_missing_data'' 0 \<or>
            dict_get checks ''starlink_total'' 0 = 0) \<and>
         dict_get checks ''launches_missing_data'' 0 =
           int (length (filter missing_data (launches (store w)))) \<and>
         dict_get checks ''starlink_total'' 0 = int (length (starlink (store w)))"
proof -
  from check_data_quality_Inr [OF assms] have checks: "checks = checks_of (clock w) (store w)"
    by simp
  from assms show ?thesis
    unfolding checks dict_get_checks_of
    by (simp add: run_data_quality_checks_def bind_io_def xcom_push_def raise_io_def return_io_def
        dict_get_checks_of)
qed

theorem quality_gate_decision_witness:
  "dict_get (checks_of 0 (store world_sixty_missing)) ''launches_missing_data'' 0 = 60 \<and>
   dict_get (checks_of 0 (store world_sixty_missing)) ''starlink_total'' 0 = 5 \<and>
   dict_get (checks_of 0 (store world_sixty_missing)) ''starlink_active'' 0 = 0 \<and>
   dict_get (checks_of 0 (store world_sixty_missing)) ''starlink_inactive'' 0 = 0 \<and>
   fst (check_data_quality world_sixty_missing) = Inr (checks_of 0 (store world_sixty_missing)) \<and>
   fst (run_data_quality_checks world_sixty_missing) =
     Inl (Raised PlainException ''Too many launches with missing data'')"
proof -
  have quiet: "set (faults world_sixty_missing) \<subseteq> {None}" and clock: "clock world_sixty_missing = 0"
    by (simp_all add: world_sixty_missing_def world0_def)
  from check_data_quality_quiet [OF quiet] clock
  have run: "check_data_quality world_sixty_missing =
      (Inr (checks_of 0 (store world_sixty_missing)), snd (check_data_quality world_sixty_missing))"
    by auto
  then have gate: "fst (check_data_quality world_sixty_missing) =
      Inr (checks_of 0 (store world_sixty_missing))"
    by (metis fst_conv)
  have missing: "dict_get (checks_of 0 (store world_sixty_missing)) ''launches_missing_data'' 0 = 60"
    by (simp add: dict_get_checks_of world_sixty_missing_def world0_def empty_db_def sixty_missing)
  have total: "dict_get (checks_of 0 (store world_sixty_missing)) ''starlink_total'' 0 = 5"
    by (simp add: dict_get_checks_of world_sixty_missing_def world0_def empty_db_def)
  have flags: "filter ((\<lambda>r. sql_eq (decayed r) lit) \<circ>
        (\<lambda>i. satellite (show_nat i) [(''OBJECT_NAME'', JStr ''STARLINK'')])) xs = []" for xs lit
    by (induction xs) (simp_all add: sql_eq_def decayed_def satellite_def json_field_text_def)
  have active: "dict_get (checks_of 0 (store world_sixty_missing)) ''starlink_active'' 0 = 0"
      "dict_get (checks_of 0 (store world_sixty_missing)) ''starlink_inactive'' 0 = 0"
    by (simp_all add: dict_get_checks_of world_sixty_missing_def world0_def empty_db_def flags)
  from quality_gate_decision [OF run] missing total active gate show ?thesis
    by simp
qed

text \<open>
  C9, as the code has it. \<^verbatim>\<open>get_extraction_summary\<close> never raises and leaves every table
  as it is. When its connection and its query succeed it returns the row counts of the
  three raw tables and the last update of the launches and of the starlink table; there
  is no last update of the rockets table in it. When either fails it returns the empty
  mapping.
\<close>

theorem summary_never_raises:
  "fst (get_extraction_summary w) =
     Inr (if next_outcome (faults w) = Inr () \<and> next_outcome (tl (faults w)) = Inr ()
          then [(''launches_count'', Count (length (launches (store w)))),
                (''starlink_count'', Count (length (starlink (store w)))),
                (''rockets_count'', Count (length (rockets (store w)))),
                (''last_launch_update'', Last_update (sql_max (map extracted_at (launches (store w))))),
                (''last_starlink_update'', Last_update (sql_max (map extracted_at (starlink (store w)))))]
          else []) \<and>
   store (snd (get_extraction_summary w)) = store w"
  by (simp add: get_extraction_summary_eq summary_of_def split: sum.splits)

text \<open>
  C9 as stated asks for the last update of all three tables: two states whose rockets
  tables were last updated at different times have the same summary.
\<close>

theorem summary_omits_rockets_update:
  "fst (get_extraction_summary world_known_rocket) =
     Inr [(''launches_count'', Count 0), (''starlink_count'', Count 0), (''rockets_count'', Count 1),
          (''last_launch_update'', Last_update None), (''last_starlink_update'', Last_update None)] \<and>
   fst (get_extraction_summary world_rocket_refreshed) =
     Inr [(''launches_count'', Count 0), (''starlink_count'', Count 0), (''rockets_count'', Count 1),
          (''last_launch_update'', Last_update None), (''last_starlink_update'', Last_update None)] \<and>
   sql_max (map extracted_at (rockets (store world_known_rocket))) = Some (- 5) \<and>
   sql_max (map extracted_at (rockets (store world_rocket_refreshed))) = Some 7"
  by (simp add: get_extraction_summary_eq summary_of_def example_defs4)




text \<open>
  C2. Two extractions of one record each, with the same key, on an empty launches table
  and with no failure: the first counts one insert and no update, the second no insert
  and one update, and the row stored after the second holds the second record.
\<close>

theorem upsert_twice:
  assumes empty: "launches (store w) = []"
    and quiet: "set (faults w) \<subseteq> {None}"
    and first: "api w Launches = Body (JArr [r1])"
    and key1: "key_of (id_column w) r1 = Some k"
    and key2: "key_of (id_column w) r2 = Some k"
    and run1: "extract_launches dag w = (res1, w1)"
    and run2: "extract_launches dag'
                 (w1\<lparr>api := (api w1)(Launches := Body (JArr [r2])), clock := t2\<rparr>) = (res2, w2)"
  shows "res1 = Inr 1 \<and>
         logged w1 = logged w @
           [Extracting Launches, Retrieved Launches 1, Loaded_new_updated Launches 1 0] \<and>
         res2 = Inr 1 \<and>
         logged w2 = logged w1 @
           [Extracting Launches, Retrieved Launches 1, Loaded_new_updated Launches 0 1] \<and>
         launches (store w2) =
           [\<lparr>row_id = k, data = r2, extracted_at = t2, source_system = ''spacex_api_v4''\<rparr>]"
proof -
  from extraction_single [OF quiet first key1, of "''extract_launches''" dag] run1 empty
  have one: "res1 = Inr 1"
    "launches (store w1) =
       [\<lparr>row_id = k, data = r1, extracted_at = clock w, source_system = ''spacex_api_v4''\<rparr>]"
    "logged w1 = logged w @
           [Extracting Launches, Retrieved Launches 1, Loaded_new_updated Launches 1 0]"
    "set (faults w1) \<subseteq> {None}" "id_column w1 = id_column w"
    by (simp_all add: extract_launches_def upsert_def returning_inserted_def)
  let ?w = "w1\<lparr>api := (api w1)(Launches := Body (JArr [r2])), clock := t2\<rparr>"
  have "set (faults ?w) \<subseteq> {None}" "api ?w Launches = Body (JArr [r2])"
    "key_of (id_column ?w) r2 = Some k"
    using one key2 by simp_all
  from extraction_single [OF this, of "''extract_launches''" dag'] run2 one
  show ?thesis
    by (simp add: extract_launches_def upsert_def returning_inserted_def)
qed

theorem upsert_twice_witness:
  "fst (extract_launches None world_first_run) = Inr 1 \<and>
   logged (snd (extract_launches None world_first_run)) =
     [Extracting Launches, Retrieved Launches 1, Loaded_new_updated Launches 1 0] \<and>
   fst (extract_launches None world_second_run) = Inr 1 \<and>
   logged (snd (extract_launches None world_second_run)) =
     [Extracting Launches, Retrieved Launches 1, Loaded_new_updated Launches 1 0,
      Extracting Launches, Retrieved Launches 1, Loaded_new_updated Launches 0 1] \<and>
   launches (store (snd (extract_launches None world_second_run))) =
     [\<lparr>row_id = ''L1'', data = L1v2, extracted_at = 86400, source_system = ''spacex_api_v4''\<rparr>]"
proof -
  let ?w = "world_first_run"
  have "launches (store ?w) = []" "set (faults ?w) \<subseteq> {None}" "api ?w Launches = Body (JArr [L1])"
    "key_of (id_column ?w) L1 = Some ''L1''" "key_of (id_column ?w) L1v2 = Some ''L1''"
    "extract_launches None ?w = (fst (extract_launches None ?w), snd (extract_launches None ?w))"
    "extract_launches None
       ((snd (extract_launches None ?w))
          \<lparr>api := (api (snd (extract_launches None ?w)))(Launches := Body (JArr [L1v2])),
           clock := 86400\<rparr>) =
     (fst (extract_launches None world_second_run), snd (extract_launches None world_second_run))"
    by (simp_all add: example_defs2 key_of_def world_first_run_def world_second_run_def)
  from upsert_twice [OF this] show ?thesis
    by (simp add: example_defs2 world_first_run_def)
qed

text \<open>
  C3. From a state with at most one row per id in each raw table (the empty tables, for
  one), every sequence of calls of the core, whatever the API answers and whichever round
  trips fail, ends in such a state: the ids of each table are distinct and their number is
  the number of rows. And when an extraction returns, the row of a key holds the record of
  the batch's last occurrence of that key.
\<close>

theorem one_row_per_id:
  "(unique_ids (store w) \<longrightarrow>
      distinct (map row_id (launches (store (run_calls cs w)))) \<and>
      distinct (map row_id (starlink (store (run_calls cs w)))) \<and>
      distinct (map row_id (rockets (store (run_calls cs w)))) \<and>
      length (remdups (map row_id (launches (store (run_calls cs w))))) =
        length (launches (store (run_calls cs w))) \<and>
      length (remdups (map row_id (starlink (store (run_calls cs w))))) =
        length (starlink (store (run_calls cs w))) \<and>
      length (remdups (map row_id (rockets (store (run_calls cs w))))) =
        length (rockets (store (run_calls cs w)))) \<and>
   (extract_launches dag w = (Inr n, w') \<and> api w Launches = Body body \<and>
    py_items body = Inr xs \<and> i < length xs \<and> key_of (id_column w) (xs ! i) = Some k \<and>
    (\<forall>j. i < j \<and> j < length xs \<longrightarrow> key_of (id_column w) (xs ! j) \<noteq> Some k) \<longrightarrow>
      k \<in> set (map row_id (launches (store w'))) \<and>
      (\<forall>r \<in> set (launches (store w')). row_id r = k \<longrightarrow> data r = xs ! i)) \<and>
   (extract_starlink dag w = (Inr n, w') \<and> api w Starlink = Body body \<and>
    py_items body = Inr xs \<and> i < length xs \<and> key_of (id_column w) (xs ! i) = Some k \<and>
    (\<forall>j. i < j \<and> j < length xs \<longrightarrow> key_of (id_column w) (xs ! j) \<noteq> Some k) \<longrightarrow>
      k \<in> set (map row_id (starlink (store w'))) \<and>
      (\<forall>r \<in> set (starlink (store w')). row_id r = k \<longrightarrow> data r = xs ! i)) \<and>
   (extract_rockets dag w = (Inr n, w') \<and> api w Rockets = Body body \<and>
    py_items body = Inr xs \<and> i < length xs \<and> key_of (id_column w) (xs ! i) = Some k \<and>
    (\<forall>j. i < j \<and> j < length xs \<longrightarrow> key_of (id_column w) (xs ! j) \<noteq> Some k) \<longrightarrow>
      k \<in> set (map row_id (rockets (store w'))) \<and>
      (\<forall>r \<in> set (rockets (store w')). row_id r = k \<longrightarrow> data r = xs ! i))"
proof -
  have counted: "k \<in> set (map row_id (table_of c (store w'))) \<and>
      (\<forall>r \<in> set (table_of c (store w')). row_id r = k \<longrightarrow> data r = xs ! i)"
    if "extraction c task_id (load_counted c) dag w = (Inr n, w')" "api w c = Body body"
      "py_items body = Inr xs" "i < length xs" "key_of (id_column w) (xs ! i) = Some k"
      "\<forall>j. i < j \<and> j < length xs \<longrightarrow> key_of (id_column w) (xs ! j) \<noteq> Some k"
    for c task_id
  proof -
    from extraction_counted_success [OF that(1)] that(2,3)
    have "\<forall>x \<in> set xs. key_of (id_column w) x \<noteq> None"
      "table_of c (store w') = write_all (id_column w) (clock w) xs (table_of c (store w))"
      by auto
    with write_all_last_wins [OF that(4,5,6)] show ?thesis by simp
  qed
  have plain: "k \<in> set (map row_id (table_of c (store w'))) \<and>
      (\<forall>r \<in> set (table_of c (store w')). row_id r = k \<longrightarrow> data r = xs ! i)"
    if "extraction c task_id (load_plain c) dag w = (Inr n, w')" "api w c = Body body"
      "py_items body = Inr xs" "i < length xs" "key_of (id_column w) (xs ! i) = Some k"
      "\<forall>j. i < j \<and> j < length xs \<longrightarrow> key_of (id_column w) (xs ! j) \<noteq> Some k"
    for c task_id
  proof -
    from extraction_plain_success [OF that(1)] that(2,3)
    have "\<forall>x \<in> set xs. key_of (id_column w) x \<noteq> None"
      "table_of c (store w') = write_all (id_column w) (clock w) xs (table_of c (store w))"
      by auto
    with write_all_last_wins [OF that(4,5,6)] show ?thesis by simp
  qed
  have unique: "distinct (map row_id (launches (store (run_calls cs w)))) \<and>
      distinct (map row_id (starlink (store (run_calls cs w)))) \<and>
      distinct (map row_id (rockets (store (run_calls cs w)))) \<and>
      length (remdups (map row_id (launches (store (run_calls cs w))))) =
        length (launches (store (run_calls cs w))) \<and>
      length (remdups (map row_id (starlink (store (run_calls cs w))))) =
        length (starlink (store (run_calls cs w))) \<and>
      length (remdups (map row_id (rockets (store (run_calls cs w))))) =
        length (rockets (store (run_calls cs w)))"
    if "unique_ids (store w)"
  proof -
    from that have "unique_ids (store (run_calls cs w))" by (rule run_calls_unique)
    then show ?thesis by (simp add: unique_ids_def distinct_count)
  qed
  from unique counted [of Launches "''extract_launches''"]
    counted [of Starlink "''extract_starlink''"] plain [of Rockets "''extract_rockets''"]
  show ?thesis
    unfolding extract_launches_def extract_starlink_def extract_rockets_def table_of.simps
    by blast
qed


theorem one_row_per_id_witness:
  "unique_ids (store world_duplicates) \<and>
   map row_id (launches (store (run_calls
       [Extract_launches None, Extract_rockets None, Extract_launches None] world_duplicates))) =
     [''L1'', ''L2''] \<and>
   fst (extract_launches None world_duplicates) = Inr 3 \<and>
   launches (store (snd (extract_launches None world_duplicates))) =
     [\<lparr>row_id = ''L1'', data = L1v2, extracted_at = 0, source_system = ''spacex_api_v4''\<rparr>,
      \<lparr>row_id = ''L2'', data = L2, extracted_at = 0, source_system = ''spacex_api_v4''\<rparr>]"
proof -
  let ?w = world_duplicates
  let ?cs = "[Extract_launches None, Extract_rockets None, Extract_launches None]"
  have unique: "unique_ids (store ?w)"
    by (simp add: unique_ids_def world_duplicates_def example_defs2)
  have run: "fst (extract_launches None ?w) = Inr 3"
    by (simp add: run_defs world_duplicates_def example_defs2)
  then have pair: "extract_launches None ?w = (Inr 3, snd (extract_launches None ?w))"
    by (metis prod.collapse)
  have batch: "api ?w Launches = Body (JArr [L1, L2, L1v2])"
    "py_items (JArr [L1, L2, L1v2]) = Inr [L1, L2, L1v2]"
    "key_of (id_column ?w) ([L1, L2, L1v2] ! 2) = Some ''L1''"
    "\<forall>j. 2 < j \<and> j < length [L1, L2, L1v2] \<longrightarrow> key_of (id_column ?w) ([L1, L2, L1v2] ! j) \<noteq> Some ''L1''"
    by (simp_all add: world_duplicates_def example_defs2 key_of_def)
  have rows: "map row_id (launches (store (run_calls ?cs ?w))) = [''L1'', ''L2'']"
    by (simp add: run_calls_def run_defs world_duplicates_def example_defs2)
  have stored: "launches (store (snd (extract_launches None ?w))) =
     [\<lparr>row_id = ''L1'', data = L1v2, extracted_at = 0, source_system = ''spacex_api_v4''\<rparr>,
      \<lparr>row_id = ''L2'', data = L2, extracted_at = 0, source_system = ''spacex_api_v4''\<rparr>]"
    by (simp add: run_defs world_duplicates_def example_defs2)
  from one_row_per_id [where w = ?w and cs = ?cs and dag = None and n = 3
      and w' = "snd (extract_launches None ?w)" and body = "JArr [L1, L2, L1v2]"
      and xs = "[L1, L2, L1v2]" and i = 2 and k = "''L1''"]
    unique pair batch rows run stored
  show ?thesis by simp
qed

end
